theory Spec2Isabelle
  imports
    Main
    "HOL-Library.List_Lexorder"
    "HOL-Library.Char_ord"
    "HOL-Library.Product_Lexorder"
    "HOL-Library.Multiset"
begin

section \<open>Data model\<close>

text \<open>
  The application (\<^verbatim>\<open>food.py\<close>) is a Streamlit script over an SQLite file with four
  tables. A calendar date is a triple (year, month, day); the lexicographic order on
  triples is the chronological order, which is also the order of the ISO texts
  \<^verbatim>\<open>YYYY-MM-DD\<close> that \<^verbatim>\<open>DATE('now')\<close> and the date adapter of \<^verbatim>\<open>sqlite3\<close> produce.
\<close>

type_synonym date = "nat \<times> nat \<times> nat"

text \<open>A value held in a cell of a result frame, or bound to a placeholder.\<close>

datatype cell = IntV int | TextV string | DateV date

text \<open>
  Modelled from the spec: the schema of the four tables is not part of the source file;
  the columns are those the queries of the source name, typed as the data model of the
  specification says (identities and quantities are integers, the expiry date is a
  calendar date, everything else is text). No column is nullable.
\<close>

record provider =
  Provider_ID :: int
  Name :: string
  Type :: string
  City :: string
  Contact :: string

record receiver =
  Receiver_ID :: int
  Name :: string
  City :: string
  Contact :: string

record food_listing =
  Food_ID :: int
  Food_Name :: string
  Quantity :: int
  Expiry_Date :: date
  Provider_ID :: int
  Provider_Type :: string
  Location :: string
  Food_Type :: string
  Meal_Type :: string

record claim =
  Claim_ID :: int
  Food_ID :: int
  Receiver_ID :: int
  Status :: string
  Timestamp :: string

record store =
  providers :: "provider list"
  receivers :: "receiver list"
  food_listings :: "food_listing list"
  claims :: "claim list"

section \<open>Result frames (pandas)\<close>

datatype error = OperationalError | ProgrammingError | KeyError | TypeError | IndexError

record dataframe =
  columns :: "string list"
  data :: "cell list list"

text \<open>\<^verbatim>\<open>df.shape[1]\<close>: the number of columns.\<close>

definition shape1 :: "dataframe \<Rightarrow> nat" where
  "shape1 df = length (columns df)"

fun index_of :: "string \<Rightarrow> string list \<Rightarrow> nat option" where
  "index_of c [] = None"
| "index_of c (x # xs) =
     (if x = c then Some 0 else map_option Suc (index_of c xs))"

text \<open>\<^verbatim>\<open>df[name]\<close>: the column as a series; a missing label raises \<^verbatim>\<open>KeyError\<close>.\<close>

definition getitem :: "dataframe \<Rightarrow> string \<Rightarrow> error + cell list" where
  "getitem df name =
     (case index_of name (columns df) of
        None \<Rightarrow> Inl KeyError
      | Some i \<Rightarrow> Inr (map (\<lambda>r. r ! i) (data df)))"

text \<open>\<^verbatim>\<open>series[0]\<close> on the default integer index; an empty series raises \<^verbatim>\<open>KeyError\<close>.\<close>

definition series_first :: "cell list \<Rightarrow> error + cell" where
  "series_first s = (case s of [] \<Rightarrow> Inl KeyError | v # _ \<Rightarrow> Inr v)"

text \<open>\<^verbatim>\<open>series == value\<close>: the boolean mask, and \<^verbatim>\<open>df[mask]\<close>: the rows it keeps.\<close>

definition series_eq :: "cell list \<Rightarrow> cell \<Rightarrow> bool list" where
  "series_eq s v = map (\<lambda>x. x = v) s"

definition getitem_mask :: "dataframe \<Rightarrow> bool list \<Rightarrow> dataframe" where
  "getitem_mask df bs = df\<lparr>data := map fst (filter snd (zip (data df) bs))\<rparr>"

text \<open>\<^verbatim>\<open>series.unique()\<close>: the distinct values in order of first appearance.\<close>

definition unique :: "'a list \<Rightarrow> 'a list" where
  "unique xs = rev (remdups (rev xs))"

text \<open>
  Python's \<^verbatim>\<open>sorted\<close>: a stable ascending sort. Texts compare with texts, integers with
  integers, dates with dates; comparing values of two different kinds raises
  \<^verbatim>\<open>TypeError\<close>, and a sort of a list of mixed kinds always makes such a comparison.
\<close>

fun texts_of :: "cell list \<Rightarrow> string list option" where
  "texts_of [] = Some []"
| "texts_of (TextV s # xs) = map_option ((#) s) (texts_of xs)"
| "texts_of (_ # xs) = None"

fun ints_of :: "cell list \<Rightarrow> int list option" where
  "ints_of [] = Some []"
| "ints_of (IntV i # xs) = map_option ((#) i) (ints_of xs)"
| "ints_of (_ # xs) = None"

fun dates_of :: "cell list \<Rightarrow> date list option" where
  "dates_of [] = Some []"
| "dates_of (DateV d # xs) = map_option ((#) d) (dates_of xs)"
| "dates_of (_ # xs) = None"

definition py_sorted :: "cell list \<Rightarrow> error + cell list" where
  "py_sorted xs =
     (case texts_of xs of
        Some ss \<Rightarrow> Inr (map TextV (sort ss))
      | None \<Rightarrow>
          (case ints_of xs of
             Some is \<Rightarrow> Inr (map IntV (sort is))
           | None \<Rightarrow>
               (case dates_of xs of
                  Some ds \<Rightarrow> Inr (map DateV (sort ds))
                | None \<Rightarrow> Inl TypeError)))"

text \<open>
  \<^verbatim>\<open>df.set_index(name)\<close>: the named column becomes the index (the category axis of a
  chart) and leaves the columns; the other columns stay as the values.
\<close>

record indexed_frame =
  index_name :: string
  index_values :: "cell list"
  frame :: dataframe

definition drop_at :: "nat \<Rightarrow> 'a list \<Rightarrow> 'a list" where
  "drop_at i xs = take i xs @ drop (Suc i) xs"

definition set_index :: "dataframe \<Rightarrow> string \<Rightarrow> error + indexed_frame" where
  "set_index df name =
     (case index_of name (columns df) of
        None \<Rightarrow> Inl KeyError
      | Some i \<Rightarrow>
          Inr \<lparr>index_name = name,
               index_values = map (\<lambda>r. r ! i) (data df),
               frame = \<lparr>columns = drop_at i (columns df),
                        data = map (drop_at i) (data df)\<rparr>\<rparr>)"

text \<open>\<^verbatim>\<open>df.columns[0]\<close>; a frame with no column raises \<^verbatim>\<open>IndexError\<close>.\<close>

definition first_column :: "dataframe \<Rightarrow> error + string" where
  "first_column df = (case columns df of [] \<Rightarrow> Inl IndexError | c # _ \<Rightarrow> Inr c)"

text \<open>An exception ends the computation; otherwise the next step runs on the value.\<close>

definition and_then :: "error + 'a \<Rightarrow> ('a \<Rightarrow> error + 'b) \<Rightarrow> error + 'b" where
  "and_then r f = (case r of Inl e \<Rightarrow> Inl e | Inr x \<Rightarrow> f x)"

section \<open>The SQL texts of the source and what they compute\<close>

text \<open>
  One constructor for each SQL text the modelled screens hand to the data access layer:
  \<^item> \<open>CountProviders\<close>: \<^verbatim>\<open>SELECT COUNT(*) AS c FROM providers\<close>
  \<^item> \<open>CountReceivers\<close>: \<^verbatim>\<open>SELECT COUNT(*) AS c FROM receivers\<close>
  \<^item> \<open>CountFoodListings\<close>: \<^verbatim>\<open>SELECT COUNT(*) AS c FROM food_listings\<close>
  \<^item> \<open>ListingsByCity\<close>:
    \<^verbatim>\<open>SELECT Location, COUNT(*) AS Listings FROM food_listings GROUP BY Location\<close>
  \<^item> \<open>SelectFoodListings\<close>: \<^verbatim>\<open>SELECT * FROM food_listings\<close>
  \<^item> \<open>ClaimsJoin\<close>: the three-way join of the Claims Management screen
  \<^item> \<open>ExpiredFoodItems\<close>: report 15,
    \<^verbatim>\<open>SELECT Food_Name, Expiry_Date, Location FROM food_listings WHERE Expiry_Date < DATE('now')\<close>
\<close>

datatype query =
    CountProviders
  | CountReceivers
  | CountFoodListings
  | ListingsByCity
  | SelectFoodListings
  | ClaimsJoin
  | ExpiredFoodItems

text \<open>
  The one mutating text:
  \<^verbatim>\<open>INSERT INTO food_listings (Food_Name, Quantity, Expiry_Date, Provider_ID,
  Provider_Type, Location, Food_Type, Meal_Type) VALUES (?, ?, ?, ?, ?, ?, ?, ?)\<close>
\<close>

datatype statement = InsertFoodListing

definition count_frame :: "nat \<Rightarrow> dataframe" where
  "count_frame n = \<lparr>columns = [''c''], data = [[IntV (int n)]]\<rparr>"

definition listing_row :: "food_listing \<Rightarrow> cell list" where
  "listing_row f =
     [IntV (food_listing.Food_ID f), TextV (Food_Name f), IntV (Quantity f),
      DateV (Expiry_Date f), IntV (food_listing.Provider_ID f), TextV (Provider_Type f),
      TextV (Location f), TextV (Food_Type f), TextV (Meal_Type f)]"

definition food_listings_columns :: "string list" where
  "food_listings_columns =
     [''Food_ID'', ''Food_Name'', ''Quantity'', ''Expiry_Date'', ''Provider_ID'',
      ''Provider_Type'', ''Location'', ''Food_Type'', ''Meal_Type'']"

definition select_food_listings :: "store \<Rightarrow> dataframe" where
  "select_food_listings s =
     \<lparr>columns = food_listings_columns, data = map listing_row (food_listings s)\<rparr>"

text \<open>
  \<^verbatim>\<open>GROUP BY Location\<close>: one row for each distinct location with the number of its
  listings. SQL leaves the order of the groups open; the model lists them in ascending
  order of the key.
\<close>

definition listings_by_city :: "store \<Rightarrow> dataframe" where
  "listings_by_city s =
     \<lparr>columns = [''Location'', ''Listings''],
      data = map (\<lambda>c. [TextV c,
                         IntV (int (length (filter (\<lambda>f. Location f = c) (food_listings s))))])
                 (sort (remdups (map Location (food_listings s))))\<rparr>"

text \<open>
  The inner joins of the Claims Management screen: a row for each claim \<open>c\<close>, each
  listing \<open>f\<close> with \<^verbatim>\<open>c.Food_ID = f.Food_ID\<close> and each receiver \<open>r\<close> with
  \<^verbatim>\<open>c.Receiver_ID = r.Receiver_ID\<close>.
\<close>

definition claim_rows :: "store \<Rightarrow> claim \<Rightarrow> cell list list" where
  "claim_rows s c =
     concat (map (\<lambda>f.
       map (\<lambda>r. [IntV (Claim_ID c), TextV (Food_Name f), TextV (receiver.Name r),
                  TextV (Status c), TextV (Timestamp c)])
           (filter (\<lambda>r. claim.Receiver_ID c = receiver.Receiver_ID r) (receivers s)))
       (filter (\<lambda>f. claim.Food_ID c = food_listing.Food_ID f) (food_listings s)))"

definition claims_join :: "store \<Rightarrow> dataframe" where
  "claims_join s =
     \<lparr>columns = [''Claim_ID'', ''Food_Name'', ''Receiver_Name'', ''Status'', ''Timestamp''],
      data = concat (map (claim_rows s) (claims s))\<rparr>"

text \<open>Report 15; \<open>now\<close> is the value of \<^verbatim>\<open>DATE('now')\<close>.\<close>

definition expired_food_items :: "date \<Rightarrow> store \<Rightarrow> dataframe" where
  "expired_food_items now s =
     \<lparr>columns = [''Food_Name'', ''Expiry_Date'', ''Location''],
      data = map (\<lambda>f. [TextV (Food_Name f), DateV (Expiry_Date f), TextV (Location f)])
                 (filter (\<lambda>f. Expiry_Date f < now) (food_listings s))\<rparr>"

fun run_query :: "date \<Rightarrow> query \<Rightarrow> store \<Rightarrow> dataframe" where
  "run_query now CountProviders s = count_frame (length (providers s))"
| "run_query now CountReceivers s = count_frame (length (receivers s))"
| "run_query now CountFoodListings s = count_frame (length (food_listings s))"
| "run_query now ListingsByCity s = listings_by_city s"
| "run_query now SelectFoodListings s = select_food_listings s"
| "run_query now ClaimsJoin s = claims_join s"
| "run_query now ExpiredFoodItems s = expired_food_items now s"

text \<open>
  Modelled from the spec: the identity of a new listing is assigned by the store. The
  model takes the successor of the largest identity in use (1 in an empty table), which
  is what an SQLite integer primary key does.
\<close>

definition new_food_id :: "food_listing list \<Rightarrow> int" where
  "new_food_id fs = fold max (map food_listing.Food_ID fs) 0 + 1"

text \<open>
  The insert binds its eight placeholders positionally. Any other number of bindings is
  a \<^verbatim>\<open>ProgrammingError\<close>; so is, in this typed model of the table, a binding of the
  wrong kind for its column.
\<close>

datatype kind = KInt | KText | KDate

fun kind_of :: "cell \<Rightarrow> kind" where
  "kind_of (IntV _) = KInt"
| "kind_of (TextV _) = KText"
| "kind_of (DateV _) = KDate"

fun int_of :: "cell \<Rightarrow> int" where
  "int_of (IntV i) = i"
| "int_of _ = 0"

fun text_of :: "cell \<Rightarrow> string" where
  "text_of (TextV t) = t"
| "text_of _ = []"

fun date_of :: "cell \<Rightarrow> date" where
  "date_of (DateV d) = d"
| "date_of _ = (0, 0, 0)"

definition insert_kinds :: "kind list" where
  "insert_kinds = [KText, KInt, KDate, KInt, KText, KText, KText, KText]"

definition inserted_row :: "int \<Rightarrow> cell list \<Rightarrow> food_listing" where
  "inserted_row fid params =
     \<lparr>food_listing.Food_ID = fid, Food_Name = text_of (params ! 0),
      Quantity = int_of (params ! 1), Expiry_Date = date_of (params ! 2),
      food_listing.Provider_ID = int_of (params ! 3),
      Provider_Type = text_of (params ! 4), Location = text_of (params ! 5),
      Food_Type = text_of (params ! 6), Meal_Type = text_of (params ! 7)\<rparr>"

fun apply_statement :: "statement \<Rightarrow> cell list \<Rightarrow> store \<Rightarrow> error + store" where
  "apply_statement InsertFoodListing params s =
     (if map kind_of params = insert_kinds
      then Inr (s\<lparr>food_listings := food_listings s @
                  [inserted_row (new_food_id (food_listings s)) params]\<rparr>)
      else Inl ProgrammingError)"

section \<open>The database engine (sqlite3)\<close>

text \<open>
  The world the script runs in: the committed content of the database file, the
  connections that are open (each with the uncommitted image of its pending transaction,
  if it has one), the handle the next connection gets, the steps that fail in this
  world, the current date, and the log of the texts handed to the engine.
\<close>

type_synonym conn = nat

datatype fault = ConnectFails | StatementFails | CommitFails

datatype call = Read query | Execute statement "cell list"

record world =
  db :: store
  connections :: "conn \<rightharpoonup> store option"
  next_conn :: conn
  faults :: "fault set"
  today :: date
  calls :: "call list"

text \<open>\<^verbatim>\<open>sqlite3.connect(DB_PATH)\<close>: a new open connection, or an exception.\<close>

definition connect :: "world \<Rightarrow> world \<times> (error + conn)" where
  "connect w =
     (if ConnectFails \<in> faults w then (w, Inl OperationalError)
      else (w\<lparr>connections := (connections w)(next_conn w \<mapsto> None),
              next_conn := Suc (next_conn w)\<rparr>,
            Inr (next_conn w)))"

text \<open>What a connection reads: its pending image if it has one, else the file.\<close>

definition conn_view :: "world \<Rightarrow> conn \<Rightarrow> store" where
  "conn_view w c = (case connections w c of Some (Some s) \<Rightarrow> s | _ \<Rightarrow> db w)"

text \<open>
  \<^verbatim>\<open>pd.read_sql(query, conn)\<close>: runs the query on the connection and returns the frame.
  A closed connection is a \<^verbatim>\<open>ProgrammingError\<close>.
\<close>

definition read_sql :: "query \<Rightarrow> conn \<Rightarrow> world \<Rightarrow> world \<times> (error + dataframe)" where
  "read_sql q c w =
     (let w1 = w\<lparr>calls := calls w @ [Read q]\<rparr> in
      if connections w c = None then (w1, Inl ProgrammingError)
      else if StatementFails \<in> faults w then (w1, Inl OperationalError)
      else (w1, Inr (run_query (today w) q (conn_view w c))))"

text \<open>
  \<^verbatim>\<open>conn.cursor().execute(statement, params)\<close>: the statement runs inside the
  connection's transaction; its effect stays pending until the commit.
\<close>

definition cursor_execute ::
  "conn \<Rightarrow> statement \<Rightarrow> cell list \<Rightarrow> world \<Rightarrow> world \<times> (error + unit)" where
  "cursor_execute c stmt params w =
     (let w1 = w\<lparr>calls := calls w @ [Execute stmt params]\<rparr> in
      if connections w c = None then (w1, Inl ProgrammingError)
      else if StatementFails \<in> faults w then (w1, Inl OperationalError)
      else (case apply_statement stmt params (conn_view w c) of
              Inl e \<Rightarrow> (w1, Inl e)
            | Inr s \<Rightarrow> (w1\<lparr>connections := (connections w)(c \<mapsto> Some s)\<rparr>, Inr ())))"

text \<open>\<^verbatim>\<open>conn.commit()\<close>: the pending image becomes the content of the file.\<close>

definition commit :: "conn \<Rightarrow> world \<Rightarrow> world \<times> (error + unit)" where
  "commit c w =
     (case connections w c of
        None \<Rightarrow> (w, Inl ProgrammingError)
      | Some pending \<Rightarrow>
          if CommitFails \<in> faults w then (w, Inl OperationalError)
          else (case pending of
                  None \<Rightarrow> (w, Inr ())
                | Some s \<Rightarrow>
                    (w\<lparr>db := s, connections := (connections w)(c \<mapsto> None)\<rparr>, Inr ())))"

text \<open>\<^verbatim>\<open>conn.close()\<close>: the connection is released; what was pending is lost.\<close>

definition close :: "conn \<Rightarrow> world \<Rightarrow> world" where
  "close c w = w\<lparr>connections := (connections w)(c := None)\<rparr>"

section \<open>Data access layer\<close>

definition get_connection :: "world \<Rightarrow> world \<times> (error + conn)" where
  "get_connection w = connect w"

text \<open>
  \<^verbatim>\<open>fetch_data\<close> and \<^verbatim>\<open>execute_query\<close> have no \<^verbatim>\<open>try\<close>: an exception raised by a step
  ends the call there, and the steps after it do not run.
\<close>

definition fetch_data :: "query \<Rightarrow> world \<Rightarrow> world \<times> (error + dataframe)" where
  "fetch_data query w =
     (case get_connection w of
        (w1, Inl e) \<Rightarrow> (w1, Inl e)
      | (w1, Inr conn) \<Rightarrow>
          (case read_sql query conn w1 of
             (w2, Inl e) \<Rightarrow> (w2, Inl e)
           | (w2, Inr df) \<Rightarrow> (close conn w2, Inr df)))"

text \<open>
  \<^verbatim>\<open>if params:\<close> is false for \<^verbatim>\<open>None\<close> and for an empty sequence; the statement then
  runs with no bindings.
\<close>

definition execute_query ::
  "statement \<Rightarrow> cell list option \<Rightarrow> world \<Rightarrow> world \<times> (error + unit)" where
  "execute_query query params w =
     (case get_connection w of
        (w1, Inl e) \<Rightarrow> (w1, Inl e)
      | (w1, Inr conn) \<Rightarrow>
          (case (case params of
                   Some (p # ps) \<Rightarrow> cursor_execute conn query (p # ps) w1
                 | _ \<Rightarrow> cursor_execute conn query [] w1) of
             (w2, Inl e) \<Rightarrow> (w2, Inl e)
           | (w2, Inr _) \<Rightarrow>
               (case commit conn w2 of
                  (w3, Inl e) \<Rightarrow> (w3, Inl e)
                | (w3, Inr _) \<Rightarrow> (close conn w3, Inr ()))))"

section \<open>Screens\<close>

text \<open>
  A screen is a run of the script for one navigation choice. Its inputs are the world
  and the current values of its input widgets; its result is the world after the run and
  either the exception that ended the run or the widgets it rendered that carry data
  (titles, captions and dividers are left out).
\<close>

datatype widget =
    Metric string cell
  | BarChart indexed_frame
  | Dataframe dataframe
  | Selectbox string "cell list"
  | Success string

definition step_then ::
  "(world \<Rightarrow> world \<times> (error + 'a)) \<Rightarrow> ('a \<Rightarrow> world \<Rightarrow> world \<times> (error + 'b)) \<Rightarrow>
   world \<Rightarrow> world \<times> (error + 'b)" where
  "step_then m f w = (case m w of (w1, Inl e) \<Rightarrow> (w1, Inl e) | (w1, Inr x) \<Rightarrow> f x w1)"

definition pure :: "error + 'a \<Rightarrow> world \<Rightarrow> world \<times> (error + 'a)" where
  "pure r w = (w, r)"

subsection \<open>Dashboard\<close>

text \<open>\<^verbatim>\<open>fetch_data("SELECT COUNT(*) AS c FROM t")["c"][0]\<close>\<close>

definition count_metric :: "query \<Rightarrow> world \<Rightarrow> world \<times> (error + cell)" where
  "count_metric q =
     step_then (fetch_data q) (\<lambda>df. pure (and_then (getitem df ''c'') series_first))"

definition dashboard :: "world \<Rightarrow> world \<times> (error + widget list)" where
  "dashboard =
     step_then (count_metric CountProviders) (\<lambda>n_providers.
     step_then (count_metric CountReceivers) (\<lambda>n_receivers.
     step_then (count_metric CountFoodListings) (\<lambda>n_listings.
     step_then (fetch_data ListingsByCity) (\<lambda>city_df.
     pure (and_then (set_index city_df ''Location'') (\<lambda>chart.
       Inr [Metric ''Total Providers'' n_providers,
            Metric ''Total Receivers'' n_receivers,
            Metric ''Total Food Listings'' n_listings,
            BarChart chart]))))))"

subsection \<open>View Food Listings\<close>

text \<open>\<^verbatim>\<open>["All"] + sorted(df[name].unique())\<close>\<close>

definition selectbox_options :: "dataframe \<Rightarrow> string \<Rightarrow> error + cell list" where
  "selectbox_options df name =
     and_then (getitem df name) (\<lambda>s.
     and_then (py_sorted (unique s)) (\<lambda>vs.
     Inr (TextV ''All'' # vs)))"

text \<open>\<^verbatim>\<open>if sel != "All": df = df[df[name] == sel]\<close>\<close>

definition filter_by :: "string \<Rightarrow> cell \<Rightarrow> dataframe \<Rightarrow> error + dataframe" where
  "filter_by name sel df =
     (if sel \<noteq> TextV ''All''
      then and_then (getitem df name) (\<lambda>s. Inr (getitem_mask df (series_eq s sel)))
      else Inr df)"

text \<open>
  The screen, for the values \<open>city\<close>, \<open>food_type\<close> and \<open>meal_type\<close> that the three
  select boxes return.
\<close>

definition view_food_listings ::
  "cell \<Rightarrow> cell \<Rightarrow> cell \<Rightarrow> world \<Rightarrow> world \<times> (error + widget list)" where
  "view_food_listings city food_type meal_type =
     step_then (fetch_data SelectFoodListings) (\<lambda>df.
     pure (and_then (selectbox_options df ''Location'') (\<lambda>city_options.
           and_then (selectbox_options df ''Food_Type'') (\<lambda>food_type_options.
           and_then (selectbox_options df ''Meal_Type'') (\<lambda>meal_type_options.
           and_then (filter_by ''Location'' city df) (\<lambda>df1.
           and_then (filter_by ''Food_Type'' food_type df1) (\<lambda>df2.
           and_then (filter_by ''Meal_Type'' meal_type df2) (\<lambda>df3.
           Inr [Selectbox ''City'' city_options,
                Selectbox ''Food Type'' food_type_options,
                Selectbox ''Meal Type'' meal_type_options,
                Dataframe df3]))))))))"

text \<open>Equality filters applied one after the other, in the order of the list.\<close>

fun apply_filters :: "(string \<times> cell) list \<Rightarrow> dataframe \<Rightarrow> error + dataframe" where
  "apply_filters [] df = Inr df"
| "apply_filters ((name, sel) # fs) df = and_then (filter_by name sel df) (apply_filters fs)"

subsection \<open>Claims Management\<close>

definition claims_management :: "world \<Rightarrow> world \<times> (error + widget list)" where
  "claims_management =
     step_then (fetch_data ClaimsJoin) (\<lambda>claims_df. pure (Inr [Dataframe claims_df]))"

subsection \<open>SQL Analysis\<close>

text \<open>
  The screen looks the selected label up in the catalog \<^verbatim>\<open>queries\<close> and fetches the
  text it finds; the model takes the selected query itself. Of the fifteen reports
  only report 15 is given a meaning above; what the screen renders is stated for every
  frame, whichever report it comes from.

  What the screen renders for the frame of the selected report: \<^verbatim>\<open>st.dataframe\<close>
  first, then \<^verbatim>\<open>st.bar_chart\<close> under \<^verbatim>\<open>if result_df.shape[1] == 2\<close>.
\<close>

definition render_result :: "dataframe \<Rightarrow> error + widget list" where
  "render_result result_df =
     (if shape1 result_df = 2
      then and_then (first_column result_df) (\<lambda>c.
           and_then (set_index result_df c) (\<lambda>chart.
           Inr [Dataframe result_df, BarChart chart]))
      else Inr [Dataframe result_df])"

definition sql_analysis :: "query \<Rightarrow> world \<Rightarrow> world \<times> (error + widget list)" where
  "sql_analysis selected_query =
     step_then (fetch_data selected_query) (\<lambda>result_df. pure (render_result result_df))"

subsection \<open>Add New Food Listing\<close>

text \<open>The values of the eight input widgets of the form.\<close>

record add_food =
  food_name :: string
  quantity :: int
  expiry :: date
  provider_id :: int
  provider_type :: string
  location :: string
  food_type :: string
  meal_type :: string

text \<open>
  What the widgets allow: \<^verbatim>\<open>min_value=1\<close> for the quantity and the provider,
  \<^verbatim>\<open>min_value=date.today()\<close> for the expiry date, and the fixed options of the two
  select boxes.
\<close>

definition widget_constraints :: "date \<Rightarrow> add_food \<Rightarrow> bool" where
  "widget_constraints now form =
     (1 \<le> quantity form \<and> now \<le> expiry form \<and> 1 \<le> provider_id form \<and>
      food_type form \<in> {''Vegetarian'', ''Non-Vegetarian'', ''Vegan''} \<and>
      meal_type form \<in> {''Breakfast'', ''Lunch'', ''Dinner'', ''Snacks''})"

definition insert_params :: "add_food \<Rightarrow> cell list" where
  "insert_params form =
     [TextV (food_name form), IntV (quantity form), DateV (expiry form),
      IntV (provider_id form), TextV (provider_type form), TextV (location form),
      TextV (food_type form), TextV (meal_type form)]"

definition add_new_food_listing ::
  "add_food \<Rightarrow> bool \<Rightarrow> world \<Rightarrow> world \<times> (error + widget list)" where
  "add_new_food_listing form submit =
     (if submit
      then step_then (execute_query InsertFoodListing (Some (insert_params form))) (\<lambda>_.
           pure (Inr [Success ''Food listing added successfully!'']))
      else pure (Inr []))"

section \<open>Notions used in the statements and proofs\<close>

text \<open>The bindings \<^verbatim>\<open>execute_query\<close> hands to the cursor for its argument \<open>params\<close>.\<close>

definition bound_params :: "cell list option \<Rightarrow> cell list" where
  "bound_params params = (case params of Some (p # ps) \<Rightarrow> p # ps | _ \<Rightarrow> [])"

text \<open>The frame of \<^verbatim>\<open>SELECT * FROM food_listings\<close> for given rows of the table.\<close>

definition listings_frame :: "food_listing list \<Rightarrow> dataframe" where
  "listings_frame fs = \<lparr>columns = food_listings_columns, data = map listing_row fs\<rparr>"

definition listing_cell :: "string \<Rightarrow> food_listing \<Rightarrow> cell" where
  "listing_cell name f =
     (if name = ''Location'' then TextV (Location f)
      else if name = ''Food_Type'' then TextV (Food_Type f)
      else TextV (Meal_Type f))"

definition keeps :: "string \<times> cell \<Rightarrow> food_listing \<Rightarrow> bool" where
  "keeps p f = (snd p = TextV ''All'' \<or> listing_cell (fst p) f = snd p)"

subsection \<open>A small store\<close>

text \<open>
  One provider, one receiver, three listings (expiring yesterday, today and next week)
  and three claims, of which the second names a listing and the third a receiver that
  the store does not hold.
\<close>

definition example_listings :: "food_listing list" where
  "example_listings =
     [\<lparr>food_listing.Food_ID = 1, Food_Name = ''Bread Loaves'', Quantity = 10,
       Expiry_Date = (2026, 11, 3), food_listing.Provider_ID = 1, Provider_Type = ''Bakery'',
       Location = ''Springfield'', Food_Type = ''Vegetarian'', Meal_Type = ''Breakfast''\<rparr>,
      \<lparr>food_listing.Food_ID = 2, Food_Name = ''Chicken Curry'', Quantity = 5,
       Expiry_Date = (2026, 11, 4), food_listing.Provider_ID = 1, Provider_Type = ''Bakery'',
       Location = ''Shelbyville'', Food_Type = ''Non-Vegetarian'', Meal_Type = ''Dinner''\<rparr>,
      \<lparr>food_listing.Food_ID = 3, Food_Name = ''Fruit Salad'', Quantity = 8,
       Expiry_Date = (2026, 11, 10), food_listing.Provider_ID = 1, Provider_Type = ''Bakery'',
       Location = ''Springfield'', Food_Type = ''Vegan'', Meal_Type = ''Breakfast''\<rparr>]"

definition example_store :: store where
  "example_store =
     \<lparr>providers =
        [\<lparr>provider.Provider_ID = 1, provider.Name = ''Daily Bread'', provider.Type = ''Bakery'',
          provider.City = ''Springfield'', provider.Contact = ''555-0100''\<rparr>],
      receivers =
        [\<lparr>receiver.Receiver_ID = 1, receiver.Name = ''Shelter One'',
          receiver.City = ''Springfield'', receiver.Contact = ''555-0200''\<rparr>],
      food_listings = example_listings,
      claims =
        [\<lparr>Claim_ID = 1, claim.Food_ID = 1, claim.Receiver_ID = 1, Status = ''Completed'',
          Timestamp = ''2026-11-01 10:00:00''\<rparr>,
         \<lparr>Claim_ID = 2, claim.Food_ID = 9, claim.Receiver_ID = 1, Status = ''Pending'',
          Timestamp = ''2026-11-02 11:30:00''\<rparr>,
         \<lparr>Claim_ID = 3, claim.Food_ID = 2, claim.Receiver_ID = 7, Status = ''Pending'',
          Timestamp = ''2026-11-03 09:15:00''\<rparr>]\<rparr>"

definition empty_store :: store where
  "empty_store = \<lparr>providers = [], receivers = [], food_listings = [], claims = []\<rparr>"

text \<open>A world on 4 November 2026 with no open connection, for a store and a set of faults.\<close>

definition example_world :: "store \<Rightarrow> fault set \<Rightarrow> world" where
  "example_world s fs =
     \<lparr>db = s, connections = Map.empty, next_conn = 0, faults = fs,
      today = (2026, 11, 4), calls = []\<rparr>"

text \<open>The submission of the end-to-end example of the specification; its expiry is tomorrow.\<close>

definition example_form :: add_food where
  "example_form =
     \<lparr>food_name = ''Bread Loaves'', quantity = 10, expiry = (2026, 11, 5), provider_id = 1,
      provider_type = ''Bakery'', location = ''Springfield'', food_type = ''Vegetarian'',
      meal_type = ''Breakfast''\<rparr>"

text \<open>Two synthetic report frames, of two columns and of one.\<close>

definition example_counts :: dataframe where
  "example_counts =
     \<lparr>columns = [''City'', ''Provider_Count''],
      data = [[TextV ''A'', IntV 2], [TextV ''B'', IntV 1]]\<rparr>"

definition example_total :: dataframe where
  "example_total = \<lparr>columns = [''Total_Food_Quantity''], data = [[IntV 23]]\<rparr>"

text \<open>A claim whose listing and whose receiver are both in the store.\<close>

definition resolvable :: "store \<Rightarrow> claim \<Rightarrow> bool" where
  "resolvable s c =
     ((\<exists>f \<in> set (food_listings s). food_listing.Food_ID f = claim.Food_ID c) \<and>
      (\<exists>r \<in> set (receivers s). receiver.Receiver_ID r = claim.Receiver_ID c))"

section \<open>Data access layer: what a call does to the world\<close>

lemma fetch_data_ok:
  "ConnectFails \<notin> faults w \<Longrightarrow> StatementFails \<notin> faults w \<Longrightarrow>
   fetch_data q w =
     (w\<lparr>connections := (connections w)(next_conn w := None),
        next_conn := Suc (next_conn w), calls := calls w @ [Read q]\<rparr>,
      Inr (run_query (today w) q (db w)))"
  by (simp add: fetch_data_def get_connection_def connect_def read_sql_def close_def
      conn_view_def Let_def)

lemma fetch_data_statement_fails:
  "ConnectFails \<notin> faults w \<Longrightarrow> StatementFails \<in> faults w \<Longrightarrow>
   fetch_data q w =
     (w\<lparr>connections := (connections w)(next_conn w \<mapsto> None),
        next_conn := Suc (next_conn w), calls := calls w @ [Read q]\<rparr>,
      Inl OperationalError)"
  by (simp add: fetch_data_def get_connection_def connect_def read_sql_def close_def
      conn_view_def Let_def)

lemma fetch_data_db: "db (fst (fetch_data q w)) = db w"
  by (simp add: fetch_data_def get_connection_def connect_def read_sql_def close_def
      conn_view_def Let_def)

lemma execute_query_unfold:
  "execute_query query params w =
     (case get_connection w of
        (w1, Inl e) \<Rightarrow> (w1, Inl e)
      | (w1, Inr conn) \<Rightarrow>
          (case cursor_execute conn query (bound_params params) w1 of
             (w2, Inl e) \<Rightarrow> (w2, Inl e)
           | (w2, Inr _) \<Rightarrow>
               (case commit conn w2 of
                  (w3, Inl e) \<Rightarrow> (w3, Inl e)
                | (w3, Inr _) \<Rightarrow> (close conn w3, Inr ()))))"
proof (cases params)
  case None
  then show ?thesis
    by (simp add: execute_query_def bound_params_def split: prod.splits sum.splits)
next
  case (Some xs)
  then show ?thesis
    by (cases xs) (simp_all add: execute_query_def bound_params_def split: prod.splits sum.splits)
qed

lemma execute_query_ok:
  "ConnectFails \<notin> faults w \<Longrightarrow> StatementFails \<notin> faults w \<Longrightarrow> CommitFails \<notin> faults w \<Longrightarrow>
   apply_statement q (bound_params ps) (db w) = Inr s' \<Longrightarrow>
   execute_query q ps w =
     (w\<lparr>db := s', connections := (connections w)(next_conn w := None),
        next_conn := Suc (next_conn w), calls := calls w @ [Execute q (bound_params ps)]\<rparr>,
      Inr ())"
  by (simp add: execute_query_unfold get_connection_def connect_def cursor_execute_def
      commit_def close_def conn_view_def Let_def)

lemma execute_query_statement_fault:
  "ConnectFails \<notin> faults w \<Longrightarrow> StatementFails \<in> faults w \<Longrightarrow>
   execute_query q ps w =
     (w\<lparr>connections := (connections w)(next_conn w \<mapsto> None),
        next_conn := Suc (next_conn w), calls := calls w @ [Execute q (bound_params ps)]\<rparr>,
      Inl OperationalError)"
  by (simp add: execute_query_unfold get_connection_def connect_def cursor_execute_def
      commit_def close_def conn_view_def Let_def)

lemma execute_query_statement_error:
  "ConnectFails \<notin> faults w \<Longrightarrow> StatementFails \<notin> faults w \<Longrightarrow>
   apply_statement q (bound_params ps) (db w) = Inl e \<Longrightarrow>
   execute_query q ps w =
     (w\<lparr>connections := (connections w)(next_conn w \<mapsto> None),
        next_conn := Suc (next_conn w), calls := calls w @ [Execute q (bound_params ps)]\<rparr>,
      Inl e)"
  by (simp add: execute_query_unfold get_connection_def connect_def cursor_execute_def
      commit_def close_def conn_view_def Let_def)

lemma execute_query_commit_fault:
  "ConnectFails \<notin> faults w \<Longrightarrow> StatementFails \<notin> faults w \<Longrightarrow> CommitFails \<in> faults w \<Longrightarrow>
   apply_statement q (bound_params ps) (db w) = Inr s' \<Longrightarrow>
   execute_query q ps w =
     (w\<lparr>connections := (connections w)(next_conn w \<mapsto> Some s'),
        next_conn := Suc (next_conn w), calls := calls w @ [Execute q (bound_params ps)]\<rparr>,
      Inl OperationalError)"
  by (simp add: execute_query_unfold get_connection_def connect_def cursor_execute_def
      commit_def close_def conn_view_def Let_def)

lemma execute_query_cases:
  obtains
    (ok) s' where "StatementFails \<notin> faults w" "CommitFails \<notin> faults w"
      "apply_statement q (bound_params ps) (db w) = Inr s'"
  | (statement_fault) "StatementFails \<in> faults w"
  | (statement_error) e where "StatementFails \<notin> faults w"
      "apply_statement q (bound_params ps) (db w) = Inl e"
  | (commit_fault) s' where "StatementFails \<notin> faults w" "CommitFails \<in> faults w"
      "apply_statement q (bound_params ps) (db w) = Inr s'"
  by (cases "apply_statement q (bound_params ps) (db w)") blast+

lemma kinds_insert_params: "map kind_of (insert_params form) = insert_kinds"
  by (simp add: insert_params_def insert_kinds_def)

lemma apply_insert_params:
  "apply_statement InsertFoodListing (insert_params form) s =
     Inr (s\<lparr>food_listings := food_listings s @
            [inserted_row (new_food_id (food_listings s)) (insert_params form)]\<rparr>)"
  by (simp add: kinds_insert_params)

lemma bound_insert_params: "bound_params (Some (insert_params form)) = insert_params form"
  by (simp add: bound_params_def insert_params_def)

lemma example_world_fields:
  "db (example_world s fs) = s"
  "faults (example_world s fs) = fs"
  "next_conn (example_world s fs) = 0"
  "calls (example_world s fs) = []"
  "today (example_world s fs) = (2026, 11, 4)"
  by (simp_all add: example_world_def)

text \<open>
  C9. For every call of \<^verbatim>\<open>fetch_data\<close> that gets its connection: when the read succeeds
  the call returns the frame and the connection it opened is closed; when the read
  raises, the exception leaves the call and the connection it opened stays open, as
  on the mutating path.
\<close>

theorem fetch_data_release:
  assumes "ConnectFails \<notin> faults w"
  shows "(StatementFails \<notin> faults w \<longrightarrow>
            snd (fetch_data q w) = Inr (run_query (today w) q (db w)) \<and>
            connections (fst (fetch_data q w)) (next_conn w) = None) \<and>
         (StatementFails \<in> faults w \<longrightarrow>
            snd (fetch_data q w) = Inl OperationalError \<and>
            connections (fst (fetch_data q w)) (next_conn w) \<noteq> None)"
  using assms by (simp add: fetch_data_ok fetch_data_statement_fails)

theorem fetch_data_release_witness:
  "ConnectFails \<notin> faults (example_world empty_store {}) \<and>
   StatementFails \<notin> faults (example_world empty_store {}) \<and>
   snd (fetch_data CountProviders (example_world empty_store {})) = Inr (count_frame 0) \<and>
   connections (fst (fetch_data CountProviders (example_world empty_store {}))) 0 = None \<and>
   ConnectFails \<notin> faults (example_world empty_store {StatementFails}) \<and>
   StatementFails \<in> faults (example_world empty_store {StatementFails}) \<and>
   snd (fetch_data CountProviders (example_world empty_store {StatementFails})) =
     Inl OperationalError \<and>
   connections (fst (fetch_data CountProviders (example_world empty_store {StatementFails}))) 0
     \<noteq> None"
proof -
  have a: "ConnectFails \<notin> faults (example_world empty_store {})"
    and b: "ConnectFails \<notin> faults (example_world empty_store {StatementFails})"
    by (simp_all add: example_world_def)
  show ?thesis
    using fetch_data_release [OF a, of CountProviders]
      fetch_data_release [OF b, of CountProviders]
    by (simp add: example_world_def empty_store_def)
qed

text \<open>
  C2 (as the code has it). For every call of \<^verbatim>\<open>execute_query\<close> that gets its
  connection: the statement and its positional bindings reach the cursor as they were
  passed, the bindings apart from the text; the call succeeds exactly when the statement
  and the commit both succeed, and then the mutation is committed and the connection the
  call opened is closed; when the call fails, whether in the statement or in the commit,
  nothing is committed and the connection it opened stays open.
\<close>

theorem execute_query_bind_commit_release:
  assumes "ConnectFails \<notin> faults w"
  shows "calls (fst (execute_query q ps w)) = calls w @ [Execute q (bound_params ps)] \<and>
         (snd (execute_query q ps w) = Inr () \<longleftrightarrow>
            StatementFails \<notin> faults w \<and> CommitFails \<notin> faults w \<and>
            (\<exists>s'. apply_statement q (bound_params ps) (db w) = Inr s')) \<and>
         (snd (execute_query q ps w) = Inr () \<longrightarrow>
            apply_statement q (bound_params ps) (db w) = Inr (db (fst (execute_query q ps w))) \<and>
            connections (fst (execute_query q ps w)) (next_conn w) = None) \<and>
         (snd (execute_query q ps w) \<noteq> Inr () \<longrightarrow>
            db (fst (execute_query q ps w)) = db w \<and>
            connections (fst (execute_query q ps w)) (next_conn w) \<noteq> None)"
proof (cases rule: execute_query_cases [of w q ps])
  case (ok s')
  with assms show ?thesis by (simp add: execute_query_ok)
next
  case statement_fault
  with assms show ?thesis by (simp add: execute_query_statement_fault)
next
  case (statement_error e)
  with assms show ?thesis by (simp add: execute_query_statement_error)
next
  case (commit_fault s')
  with assms show ?thesis by (simp add: execute_query_commit_fault)
qed

theorem execute_query_bind_commit_release_witness:
  "ConnectFails \<notin> faults (example_world example_store {}) \<and>
   calls (fst (execute_query InsertFoodListing (Some (insert_params example_form))
                 (example_world example_store {}))) =
     [Execute InsertFoodListing (insert_params example_form)] \<and>
   snd (execute_query InsertFoodListing (Some (insert_params example_form))
          (example_world example_store {})) = Inr () \<and>
   length (food_listings (db (fst (execute_query InsertFoodListing
          (Some (insert_params example_form)) (example_world example_store {}))))) = 4 \<and>
   connections (fst (execute_query InsertFoodListing (Some (insert_params example_form))
          (example_world example_store {}))) 0 = None \<and>
   ConnectFails \<notin> faults (example_world example_store {CommitFails}) \<and>
   snd (execute_query InsertFoodListing (Some (insert_params example_form))
          (example_world example_store {CommitFails})) \<noteq> Inr () \<and>
   db (fst (execute_query InsertFoodListing (Some (insert_params example_form))
          (example_world example_store {CommitFails}))) = example_store \<and>
   connections (fst (execute_query InsertFoodListing (Some (insert_params example_form))
          (example_world example_store {CommitFails}))) 0 \<noteq> None"
proof -
  let ?ps = "Some (insert_params example_form)"
  let ?good = "execute_query InsertFoodListing ?ps (example_world example_store {})"
  let ?bad = "execute_query InsertFoodListing ?ps (example_world example_store {CommitFails})"
  have a: "ConnectFails \<notin> faults (example_world example_store {})"
    and b: "ConnectFails \<notin> faults (example_world example_store {CommitFails})"
    by (simp_all add: example_world_fields)
  note good = execute_query_bind_commit_release [OF a, of InsertFoodListing ?ps,
      unfolded bound_insert_params example_world_fields apply_insert_params]
  note bad = execute_query_bind_commit_release [OF b, of InsertFoodListing ?ps,
      unfolded bound_insert_params example_world_fields apply_insert_params]
  from good have ok: "snd ?good = Inr ()" by simp
  from good have c: "calls (fst ?good) = [Execute InsertFoodListing (insert_params example_form)]"
    by simp
  from good ok have "db (fst ?good) =
      example_store\<lparr>food_listings := food_listings example_store @
        [inserted_row (new_food_id (food_listings example_store)) (insert_params example_form)]\<rparr>"
    by simp
  then have n: "length (food_listings (db (fst ?good))) = 4"
    by (simp add: example_store_def example_listings_def)
  from good ok have r: "connections (fst ?good) 0 = None" by simp
  from bad have fail: "snd ?bad \<noteq> Inr ()" by simp
  with bad have "db (fst ?bad) = example_store" "connections (fst ?bad) 0 \<noteq> None"
    by simp_all
  with a b ok c n r fail show ?thesis by simp
qed

text \<open>
  C2 as stated says that a failure after the connection was acquired leaves it open
  only if the commit raises. In the first world below the statement raises (commit is not
  reached, and would not raise); in the second no step of the engine is faulty and the
  statement raises for its missing bindings. In both the connection stays open.
\<close>

theorem execute_query_leak_counterexample:
  "CommitFails \<notin> faults (example_world example_store {StatementFails}) \<and>
   snd (execute_query InsertFoodListing (Some (insert_params example_form))
          (example_world example_store {StatementFails})) = Inl OperationalError \<and>
   connections (fst (execute_query InsertFoodListing (Some (insert_params example_form))
          (example_world example_store {StatementFails}))) 0 \<noteq> None \<and>
   faults (example_world example_store {}) = {} \<and>
   snd (execute_query InsertFoodListing None (example_world example_store {})) =
     Inl ProgrammingError \<and>
   connections (fst (execute_query InsertFoodListing None (example_world example_store {}))) 0
     \<noteq> None"
  by (simp add: execute_query_statement_fault execute_query_statement_error
      example_world_fields bound_params_def insert_kinds_def)


section \<open>SQL Analysis: what is rendered for a result\<close>

lemma sql_analysis_ok:
  "ConnectFails \<notin> faults w \<Longrightarrow> StatementFails \<notin> faults w \<Longrightarrow>
   snd (sql_analysis q w) = render_result (run_query (today w) q (db w))"
  by (simp add: sql_analysis_def step_then_def pure_def fetch_data_ok)

lemma drop_at_0: "drop_at 0 xs = tl xs"
  by (simp add: drop_at_def drop_Suc)

lemma render_result_two:
  "columns df = [a, b] \<Longrightarrow>
   render_result df =
     Inr [Dataframe df,
          BarChart \<lparr>index_name = a, index_values = map (\<lambda>r. r ! 0) (data df),
                    frame = \<lparr>columns = [b], data = map tl (data df)\<rparr>\<rparr>]"
  by (simp add: render_result_def shape1_def first_column_def set_index_def and_then_def
      drop_at_0)

lemma render_result_other: "shape1 df \<noteq> 2 \<Longrightarrow> render_result df = Inr [Dataframe df]"
  by (simp add: render_result_def)

lemma length_2_iff: "length xs = 2 \<longleftrightarrow> (\<exists>a b. xs = [a, b])"
  by (metis length_0_conv length_Suc_conv numeral_2_eq_2)

text \<open>
  C1 (as the code has it). The SQL Analysis screen renders what \<open>render_result\<close>
  gives for the frame it has just fetched. For every frame the generic table is
  rendered; a frame of exactly two columns gets, after the table, a bar chart with the
  first column as the category axis and the second as the measured value; a frame of
  any other number of columns gets the table alone. What is rendered depends on the
  frame only.
\<close>

theorem render_result_by_column_count:
  "(ConnectFails \<notin> faults w \<and> StatementFails \<notin> faults w \<longrightarrow>
      snd (sql_analysis q w) = render_result (run_query (today w) q (db w))) \<and>
   (shape1 df = 2 \<longrightarrow>
      (\<exists>a b. columns df = [a, b] \<and>
         render_result df =
           Inr [Dataframe df,
                BarChart \<lparr>index_name = a, index_values = map (\<lambda>r. r ! 0) (data df),
                          frame = \<lparr>columns = [b], data = map tl (data df)\<rparr>\<rparr>])) \<and>
   (shape1 df \<noteq> 2 \<longrightarrow> render_result df = Inr [Dataframe df])"
proof (intro conjI impI)
  assume "ConnectFails \<notin> faults w \<and> StatementFails \<notin> faults w"
  then show "snd (sql_analysis q w) = render_result (run_query (today w) q (db w))"
    by (simp add: sql_analysis_ok)
next
  assume "shape1 df = 2"
  then obtain a b where "columns df = [a, b]"
    by (auto simp: shape1_def length_2_iff)
  then show "\<exists>a b. columns df = [a, b] \<and>
         render_result df =
           Inr [Dataframe df,
                BarChart \<lparr>index_name = a, index_values = map (\<lambda>r. r ! 0) (data df),
                          frame = \<lparr>columns = [b], data = map tl (data df)\<rparr>\<rparr>]"
    by (simp add: render_result_two)
next
  assume "shape1 df \<noteq> 2"
  then show "render_result df = Inr [Dataframe df]" by (rule render_result_other)
qed

theorem render_result_by_column_count_witness:
  "shape1 example_total = 1 \<and> render_result example_total = Inr [Dataframe example_total] \<and>
   shape1 example_counts = 2 \<and>
   render_result example_counts =
     Inr [Dataframe example_counts,
          BarChart \<lparr>index_name = ''City'', index_values = [TextV ''A'', TextV ''B''],
                    frame = \<lparr>columns = [''Provider_Count''], data = [[IntV 2], [IntV 1]]\<rparr>\<rparr>] \<and>
   shape1 (expired_food_items (2026, 11, 4) example_store) = 3 \<and>
   render_result (expired_food_items (2026, 11, 4) example_store) =
     Inr [Dataframe (expired_food_items (2026, 11, 4) example_store)] \<and>
   shape1 (claims_join example_store) = 5 \<and>
   render_result (claims_join example_store) = Inr [Dataframe (claims_join example_store)]"
proof -
  have s: "shape1 example_total = 1" "shape1 example_counts = 2"
    "shape1 (expired_food_items (2026, 11, 4) example_store) = 3"
    "shape1 (claims_join example_store) = 5"
    by (simp_all add: shape1_def example_total_def example_counts_def expired_food_items_def
        claims_join_def)
  have c: "columns example_counts = [''City'', ''Provider_Count'']"
    "data example_counts = [[TextV ''A'', IntV 2], [TextV ''B'', IntV 1]]"
    by (simp_all add: example_counts_def)
  show ?thesis
    using render_result_by_column_count [of _ _ example_total]
      render_result_by_column_count [of _ _ example_counts]
      render_result_by_column_count [of _ _ "expired_food_items (2026, 11, 4) example_store"]
      render_result_by_column_count [of _ _ "claims_join example_store"]
    by (simp add: s c)
qed

text \<open>
  C1 as stated makes the rendering a choice: the chart for two columns, the table for
  any other count. For the two-column frame below the screen renders the table and the
  chart, not the chart alone.
\<close>

theorem render_result_counterexample:
  "shape1 example_counts = 2 \<and>
   render_result example_counts =
     Inr [Dataframe example_counts,
          BarChart \<lparr>index_name = ''City'', index_values = [TextV ''A'', TextV ''B''],
                    frame = \<lparr>columns = [''Provider_Count''], data = [[IntV 2], [IntV 1]]\<rparr>\<rparr>] \<and>
   render_result example_counts \<noteq>
     Inr [BarChart \<lparr>index_name = ''City'', index_values = [TextV ''A'', TextV ''B''],
                    frame = \<lparr>columns = [''Provider_Count''], data = [[IntV 2], [IntV 1]]\<rparr>\<rparr>]"
  by (simp add: render_result_def shape1_def first_column_def set_index_def and_then_def
      drop_at_def example_counts_def)

section \<open>Dashboard\<close>

lemma count_metric_ok:
  assumes "ConnectFails \<notin> faults w" "StatementFails \<notin> faults w"
    and "run_query (today w) q (db w) = count_frame n"
  shows "count_metric q w =
     (w\<lparr>connections := (connections w)(next_conn w := None),
        next_conn := Suc (next_conn w), calls := calls w @ [Read q]\<rparr>,
      Inr (IntV (int n)))"
  using assms
  by (simp add: count_metric_def step_then_def pure_def fetch_data_ok and_then_def
      getitem_def series_first_def count_frame_def)

lemma count_metric_db: "db (fst (count_metric q w)) = db w"
  using fetch_data_db [of q w]
  by (auto simp: count_metric_def step_then_def pure_def split: prod.splits sum.splits)

lemma set_index_listings_by_city:
  "set_index (listings_by_city s) ''Location'' =
     Inr \<lparr>index_name = ''Location'',
          index_values = map (\<lambda>r. r ! 0) (data (listings_by_city s)),
          frame = \<lparr>columns = [''Listings''], data = map tl (data (listings_by_city s))\<rparr>\<rparr>"
  by (simp add: set_index_def listings_by_city_def drop_at_0)

lemma dashboard_ok:
  assumes "ConnectFails \<notin> faults w" "StatementFails \<notin> faults w"
  shows "snd (dashboard w) =
     Inr [Metric ''Total Providers'' (IntV (int (length (providers (db w))))),
          Metric ''Total Receivers'' (IntV (int (length (receivers (db w))))),
          Metric ''Total Food Listings'' (IntV (int (length (food_listings (db w))))),
          BarChart \<lparr>index_name = ''Location'',
                    index_values = map (\<lambda>r. r ! 0) (data (listings_by_city (db w))),
                    frame = \<lparr>columns = [''Listings''],
                             data = map tl (data (listings_by_city (db w)))\<rparr>\<rparr>]"
  using assms
  by (simp add: dashboard_def step_then_def pure_def count_metric_ok fetch_data_ok
      set_index_listings_by_city and_then_def)

lemma step_then_db:
  assumes "\<And>w. db (fst (m w)) = db w" "\<And>x w. db (fst (f x w)) = db w"
  shows "db (fst (step_then m f w)) = db w"
proof (cases "m w")
  case (Pair w1 r)
  with assms(1) [of w] have "db w1 = db w" by simp
  with Pair assms(2) show ?thesis
    by (cases r) (simp_all add: step_then_def)
qed

lemma dashboard_db: "db (fst (dashboard w)) = db w"
  unfolding dashboard_def
  by (intro step_then_db count_metric_db fetch_data_db) (simp add: pure_def)

text \<open>
  C6. In every world where connecting and reading succeed, each of the three count
  metrics of the Dashboard is the number of rows of its table at the time of the query
  (so 0 for an empty table, not an error), the whole screen shows these three numbers,
  and neither a metric nor the screen changes the content of the store.
\<close>

theorem dashboard_counts:
  assumes "ConnectFails \<notin> faults w" and "StatementFails \<notin> faults w"
  shows "snd (count_metric CountProviders w) = Inr (IntV (int (length (providers (db w))))) \<and>
         snd (count_metric CountReceivers w) = Inr (IntV (int (length (receivers (db w))))) \<and>
         snd (count_metric CountFoodListings w) =
           Inr (IntV (int (length (food_listings (db w))))) \<and>
         db (fst (count_metric CountProviders w)) = db w \<and>
         db (fst (count_metric CountReceivers w)) = db w \<and>
         db (fst (count_metric CountFoodListings w)) = db w \<and>
         (\<exists>chart. snd (dashboard w) =
            Inr [Metric ''Total Providers'' (IntV (int (length (providers (db w))))),
                 Metric ''Total Receivers'' (IntV (int (length (receivers (db w))))),
                 Metric ''Total Food Listings'' (IntV (int (length (food_listings (db w))))),
                 BarChart chart]) \<and>
         db (fst (dashboard w)) = db w"
  using assms by (simp add: count_metric_ok count_metric_db dashboard_ok dashboard_db)

theorem dashboard_counts_witness:
  "ConnectFails \<notin> faults (example_world empty_store {}) \<and>
   StatementFails \<notin> faults (example_world empty_store {}) \<and>
   snd (count_metric CountProviders (example_world empty_store {})) = Inr (IntV 0) \<and>
   snd (count_metric CountReceivers (example_world empty_store {})) = Inr (IntV 0) \<and>
   snd (count_metric CountFoodListings (example_world empty_store {})) = Inr (IntV 0) \<and>
   db (fst (dashboard (example_world empty_store {}))) = empty_store \<and>
   ConnectFails \<notin> faults (example_world example_store {}) \<and>
   StatementFails \<notin> faults (example_world example_store {}) \<and>
   snd (count_metric CountProviders (example_world example_store {})) = Inr (IntV 1) \<and>
   snd (count_metric CountReceivers (example_world example_store {})) = Inr (IntV 1) \<and>
   snd (count_metric CountFoodListings (example_world example_store {})) = Inr (IntV 3) \<and>
   db (fst (dashboard (example_world example_store {}))) = example_store"
proof -
  have a: "ConnectFails \<notin> faults (example_world empty_store {})"
    "StatementFails \<notin> faults (example_world empty_store {})"
    and b: "ConnectFails \<notin> faults (example_world example_store {})"
    "StatementFails \<notin> faults (example_world example_store {})"
    by (simp_all add: example_world_fields)
  have n: "length (providers empty_store) = 0" "length (receivers empty_store) = 0"
    "length (food_listings empty_store) = 0" "length (providers example_store) = 1"
    "length (receivers example_store) = 1" "length (food_listings example_store) = 3"
    by (simp_all add: empty_store_def example_store_def example_listings_def)
  show ?thesis
    using dashboard_counts [OF a] dashboard_counts [OF b]
    by (simp add: example_world_fields n)
qed

section \<open>Report 15: expired food items\<close>

text \<open>
  C3. In every world where connecting and reading succeed, report 15 returns the rows
  (food name, expiry date, location) of exactly the listings whose expiry date is
  strictly before the date of the evaluation, in table order: for every listing of the
  store, its row is in the result if and only if its expiry date is before that date. A
  listing that expires on that date or later has no row. The screen shows the frame as
  a table.
\<close>

theorem expired_food_items_exact:
  assumes "ConnectFails \<notin> faults w" and "StatementFails \<notin> faults w"
  shows "\<exists>df. snd (fetch_data ExpiredFoodItems w) = Inr df \<and>
           snd (sql_analysis ExpiredFoodItems w) = Inr [Dataframe df] \<and>
           columns df = [''Food_Name'', ''Expiry_Date'', ''Location''] \<and>
           data df =
             map (\<lambda>f. [TextV (Food_Name f), DateV (Expiry_Date f), TextV (Location f)])
                 (filter (\<lambda>f. Expiry_Date f < today w) (food_listings (db w))) \<and>
           (\<forall>f \<in> set (food_listings (db w)).
              [TextV (Food_Name f), DateV (Expiry_Date f), TextV (Location f)] \<in> set (data df)
              \<longleftrightarrow> Expiry_Date f < today w)"
proof -
  let ?df = "expired_food_items (today w) (db w)"
  have "snd (fetch_data ExpiredFoodItems w) = Inr ?df"
    using assms by (simp add: fetch_data_ok)
  moreover have "shape1 ?df \<noteq> 2" by (simp add: shape1_def expired_food_items_def)
  then have "snd (sql_analysis ExpiredFoodItems w) = Inr [Dataframe ?df]"
    using assms by (simp add: sql_analysis_ok render_result_other)
  moreover have "columns ?df = [''Food_Name'', ''Expiry_Date'', ''Location'']"
    by (simp add: expired_food_items_def)
  moreover have "data ?df =
             map (\<lambda>f. [TextV (Food_Name f), DateV (Expiry_Date f), TextV (Location f)])
                 (filter (\<lambda>f. Expiry_Date f < today w) (food_listings (db w)))"
    by (simp add: expired_food_items_def)
  moreover have "\<forall>f \<in> set (food_listings (db w)).
              [TextV (Food_Name f), DateV (Expiry_Date f), TextV (Location f)] \<in> set (data ?df)
              \<longleftrightarrow> Expiry_Date f < today w"
    by (auto simp: expired_food_items_def)
  ultimately show ?thesis by blast
qed

theorem expired_food_items_exact_witness:
  "ConnectFails \<notin> faults (example_world example_store {}) \<and>
   StatementFails \<notin> faults (example_world example_store {}) \<and>
   map Expiry_Date (food_listings example_store) = [(2026, 11, 3), (2026, 11, 4), (2026, 11, 10)] \<and>
   snd (fetch_data ExpiredFoodItems (example_world example_store {})) =
     Inr \<lparr>columns = [''Food_Name'', ''Expiry_Date'', ''Location''],
          data = [[TextV ''Bread Loaves'', DateV (2026, 11, 3), TextV ''Springfield'']]\<rparr>"
proof -
  have a: "ConnectFails \<notin> faults (example_world example_store {})"
    and b: "StatementFails \<notin> faults (example_world example_store {})"
    by (simp_all add: example_world_fields)
  have l: "food_listings example_store = example_listings"
    by (simp add: example_store_def)
  show ?thesis
    using expired_food_items_exact [OF a b] a b
    by (auto simp: example_world_fields l example_listings_def)
qed

section \<open>Claims Management: the join\<close>

lemma claim_rows_unresolvable: "\<not> resolvable s c \<Longrightarrow> claim_rows s c = []"
  by (auto simp: resolvable_def claim_rows_def filter_empty_conv)

lemma claim_rows_claims_update: "claim_rows (s\<lparr>claims := cs\<rparr>) c = claim_rows s c"
  by (simp add: claim_rows_def)

lemma concat_map_filter_nonempty:
  "(\<And>x. \<not> P x \<Longrightarrow> g x = []) \<Longrightarrow> concat (map g (filter P xs)) = concat (map g xs)"
  by (induction xs) simp_all

lemma claims_join_drop_dangling:
  "claims_join (s\<lparr>claims := filter (resolvable s) (claims s)\<rparr>) = claims_join s"
proof -
  have "concat (map (claim_rows s) (filter (resolvable s) (claims s))) =
        concat (map (claim_rows s) (claims s))"
    by (rule concat_map_filter_nonempty) (rule claim_rows_unresolvable)
  then show ?thesis
    by (simp add: claims_join_def claim_rows_claims_update cong: map_cong)
qed

lemma set_claims_join:
  "set (data (claims_join s)) =
     {[IntV (Claim_ID c), TextV (Food_Name f), TextV (receiver.Name r),
       TextV (Status c), TextV (Timestamp c)] | c f r.
      c \<in> set (claims s) \<and> f \<in> set (food_listings s) \<and> r \<in> set (receivers s) \<and>
      claim.Food_ID c = food_listing.Food_ID f \<and> claim.Receiver_ID c = receiver.Receiver_ID r}"
  by (auto simp: claims_join_def claim_rows_def)

lemma claims_management_ok:
  "ConnectFails \<notin> faults w \<Longrightarrow> StatementFails \<notin> faults w \<Longrightarrow>
   snd (claims_management w) = Inr [Dataframe (claims_join (db w))]"
  by (simp add: claims_management_def step_then_def pure_def fetch_data_ok)

text \<open>
  C5. In every world where connecting and reading succeed, the Claims Management screen
  shows one table: its rows are exactly the projections (claim id, food name, receiver
  name, status, timestamp) of the triples of a claim, a listing and a receiver of the
  store whose identities match. A claim whose listing or whose receiver is not in the
  store contributes no row and raises nothing: the result is the one of the store
  without such claims.
\<close>

theorem claims_management_inner_join:
  assumes "ConnectFails \<notin> faults w" and "StatementFails \<notin> faults w"
  shows "snd (claims_management w) = Inr [Dataframe (claims_join (db w))] \<and>
         columns (claims_join (db w)) =
           [''Claim_ID'', ''Food_Name'', ''Receiver_Name'', ''Status'', ''Timestamp''] \<and>
         set (data (claims_join (db w))) =
           {[IntV (Claim_ID c), TextV (Food_Name f), TextV (receiver.Name r),
             TextV (Status c), TextV (Timestamp c)] | c f r.
            c \<in> set (claims (db w)) \<and> f \<in> set (food_listings (db w)) \<and>
            r \<in> set (receivers (db w)) \<and>
            claim.Food_ID c = food_listing.Food_ID f \<and>
            claim.Receiver_ID c = receiver.Receiver_ID r} \<and>
         data (claims_join (db w)) = concat (map (claim_rows (db w)) (claims (db w))) \<and>
         (\<forall>c \<in> set (claims (db w)). \<not> resolvable (db w) c \<longrightarrow> claim_rows (db w) c = []) \<and>
         claims_join ((db w)\<lparr>claims := filter (resolvable (db w)) (claims (db w))\<rparr>) =
           claims_join (db w)"
  using assms
  by (simp add: claims_management_ok set_claims_join claims_join_drop_dangling
      claim_rows_unresolvable)
    (simp add: claims_join_def)

theorem claims_management_inner_join_witness:
  "ConnectFails \<notin> faults (example_world example_store {}) \<and>
   StatementFails \<notin> faults (example_world example_store {}) \<and>
   map (resolvable example_store) (claims example_store) = [True, False, False] \<and>
   snd (claims_management (example_world example_store {})) =
     Inr [Dataframe
       \<lparr>columns = [''Claim_ID'', ''Food_Name'', ''Receiver_Name'', ''Status'', ''Timestamp''],
        data = [[IntV 1, TextV ''Bread Loaves'', TextV ''Shelter One'', TextV ''Completed'',
                 TextV ''2026-11-01 10:00:00'']]\<rparr>]"
proof -
  have a: "ConnectFails \<notin> faults (example_world example_store {})"
    and b: "StatementFails \<notin> faults (example_world example_store {})"
    by (simp_all add: example_world_fields)
  have r: "map (resolvable example_store) (claims example_store) = [True, False, False]"
    by (simp add: resolvable_def example_store_def example_listings_def)
  have j: "claims_join example_store =
       \<lparr>columns = [''Claim_ID'', ''Food_Name'', ''Receiver_Name'', ''Status'', ''Timestamp''],
        data = [[IntV 1, TextV ''Bread Loaves'', TextV ''Shelter One'', TextV ''Completed'',
                 TextV ''2026-11-01 10:00:00'']]\<rparr>"
    by (simp add: claims_join_def claim_rows_def example_store_def example_listings_def)
  show ?thesis
    using claims_management_inner_join [OF a b] a b r
    by (simp add: example_world_fields j)
qed

section \<open>Add New Food Listing\<close>

lemma fold_max_ge: "(x::int) \<in> set xs \<Longrightarrow> x \<le> fold max xs a"
proof -
  assume "x \<in> set xs"
  then have "x \<le> Max (set (a # xs))" by (intro Max_ge) auto
  then show ?thesis by (simp only: Max.set_eq_fold)
qed

lemma new_food_id_fresh: "new_food_id fs \<notin> food_listing.Food_ID ` set fs"
proof
  assume "new_food_id fs \<in> food_listing.Food_ID ` set fs"
  then have "new_food_id fs \<in> set (map food_listing.Food_ID fs)" by simp
  then have "new_food_id fs \<le> fold max (map food_listing.Food_ID fs) 0" by (rule fold_max_ge)
  then show False by (simp add: new_food_id_def)
qed

lemma inserted_row_insert_params:
  "inserted_row fid (insert_params form) =
     \<lparr>food_listing.Food_ID = fid, Food_Name = food_name form, Quantity = quantity form,
      Expiry_Date = expiry form, food_listing.Provider_ID = provider_id form,
      Provider_Type = provider_type form, Location = location form,
      Food_Type = food_type form, Meal_Type = meal_type form\<rparr>"
  by (simp add: inserted_row_def insert_params_def)

lemma add_new_food_listing_ok:
  assumes "ConnectFails \<notin> faults w" "StatementFails \<notin> faults w" "CommitFails \<notin> faults w"
  shows "add_new_food_listing form True w =
     (w\<lparr>db := (db w)\<lparr>food_listings := food_listings (db w) @
                 [inserted_row (new_food_id (food_listings (db w))) (insert_params form)]\<rparr>,
        connections := (connections w)(next_conn w := None),
        next_conn := Suc (next_conn w),
        calls := calls w @ [Execute InsertFoodListing (insert_params form)]\<rparr>,
      Inr [Success ''Food listing added successfully!''])"
  using assms execute_query_ok [of w InsertFoodListing "Some (insert_params form)",
      unfolded bound_insert_params, OF assms apply_insert_params]
  by (simp add: add_new_food_listing_def step_then_def pure_def)

text \<open>
  C7. For every submission of the form that the widgets allow (quantity at least 1,
  expiry date not before today), in a world where connecting, the statement and the
  commit succeed: the screen hands the engine exactly one insert, with the eight field
  values as its bindings; the store gains exactly one row of \<open>food_listings\<close>, whose
  eight columns are the submitted values and whose identity, assigned by the store, is
  not the identity of any earlier row; and the confirmation is shown.
\<close>

theorem add_new_food_listing_inserts_one_row:
  assumes "widget_constraints (today w) form"
    and "ConnectFails \<notin> faults w" and "StatementFails \<notin> faults w" and "CommitFails \<notin> faults w"
  shows "snd (add_new_food_listing form True w) =
           Inr [Success ''Food listing added successfully!''] \<and>
         calls (fst (add_new_food_listing form True w)) =
           calls w @ [Execute InsertFoodListing
             [TextV (food_name form), IntV (quantity form), DateV (expiry form),
              IntV (provider_id form), TextV (provider_type form), TextV (location form),
              TextV (food_type form), TextV (meal_type form)]] \<and>
         db (fst (add_new_food_listing form True w)) =
           (db w)\<lparr>food_listings := food_listings (db w) @
             [\<lparr>food_listing.Food_ID = new_food_id (food_listings (db w)),
               Food_Name = food_name form, Quantity = quantity form,
               Expiry_Date = expiry form, food_listing.Provider_ID = provider_id form,
               Provider_Type = provider_type form, Location = location form,
               Food_Type = food_type form, Meal_Type = meal_type form\<rparr>]\<rparr> \<and>
         new_food_id (food_listings (db w)) \<notin>
           food_listing.Food_ID ` set (food_listings (db w))"
  using assms(2-4)
  by (simp add: add_new_food_listing_ok inserted_row_insert_params new_food_id_fresh)
    (simp add: insert_params_def)

theorem add_new_food_listing_inserts_one_row_witness:
  "widget_constraints (today (example_world example_store {})) example_form \<and>
   ConnectFails \<notin> faults (example_world example_store {}) \<and>
   StatementFails \<notin> faults (example_world example_store {}) \<and>
   CommitFails \<notin> faults (example_world example_store {}) \<and>
   snd (add_new_food_listing example_form True (example_world example_store {})) =
     Inr [Success ''Food listing added successfully!''] \<and>
   food_listings (db (fst (add_new_food_listing example_form True
                             (example_world example_store {})))) =
     example_listings @
       [\<lparr>food_listing.Food_ID = 4, Food_Name = ''Bread Loaves'', Quantity = 10,
         Expiry_Date = (2026, 11, 5), food_listing.Provider_ID = 1, Provider_Type = ''Bakery'',
         Location = ''Springfield'', Food_Type = ''Vegetarian'', Meal_Type = ''Breakfast''\<rparr>]"
proof -
  have c: "widget_constraints (today (example_world example_store {})) example_form"
    by (simp add: widget_constraints_def example_world_fields example_form_def)
  have a: "ConnectFails \<notin> faults (example_world example_store {})"
    "StatementFails \<notin> faults (example_world example_store {})"
    "CommitFails \<notin> faults (example_world example_store {})"
    by (simp_all add: example_world_fields)
  have l: "food_listings example_store = example_listings"
    by (simp add: example_store_def)
  have n: "new_food_id example_listings = 4"
    by (simp add: new_food_id_def example_listings_def)
  show ?thesis
    using add_new_food_listing_inserts_one_row [OF c a] c a
    by (simp add: example_world_fields l n) (simp add: example_form_def)
qed

section \<open>View Food Listings: options and filters\<close>

lemma select_food_listings_frame: "select_food_listings s = listings_frame (food_listings s)"
  by (simp add: select_food_listings_def listings_frame_def)

lemma index_of_filter_columns:
  "index_of ''Location'' food_listings_columns = Some 6"
  "index_of ''Food_Type'' food_listings_columns = Some 7"
  "index_of ''Meal_Type'' food_listings_columns = Some 8"
  by (simp_all add: food_listings_columns_def)

lemma listing_row_nth:
  "listing_row f ! 6 = TextV (Location f)"
  "listing_row f ! 7 = TextV (Food_Type f)"
  "listing_row f ! 8 = TextV (Meal_Type f)"
  by (simp_all add: listing_row_def)

lemma listing_cell_eqs:
  "listing_cell ''Location'' = (\<lambda>f. TextV (Location f))"
  "listing_cell ''Food_Type'' = (\<lambda>f. TextV (Food_Type f))"
  "listing_cell ''Meal_Type'' = (\<lambda>f. TextV (Meal_Type f))"
  by (simp_all add: listing_cell_def fun_eq_iff)

lemma getitem_listings:
  assumes "name \<in> {''Location'', ''Food_Type'', ''Meal_Type''}"
  shows "getitem (listings_frame fs) name = Inr (map (listing_cell name) fs)"
  using assms
  by (auto simp: getitem_def listings_frame_def index_of_filter_columns listing_row_nth
      listing_cell_def)

lemma mask_rows:
  "map fst (filter snd (zip (map g fs) (series_eq (map h fs) v))) =
   map g (filter (\<lambda>f. h f = v) fs)"
  by (induction fs) (simp_all add: series_eq_def)

lemma filter_by_listings:
  assumes "fst p \<in> {''Location'', ''Food_Type'', ''Meal_Type''}"
  shows "filter_by (fst p) (snd p) (listings_frame fs) = Inr (listings_frame (filter (keeps p) fs))"
proof (cases "snd p = TextV ''All''")
  case True
  then show ?thesis by (simp add: filter_by_def keeps_def)
next
  case False
  have "getitem_mask (listings_frame fs) (series_eq (map (listing_cell (fst p)) fs) (snd p)) =
        listings_frame (filter (\<lambda>f. listing_cell (fst p) f = snd p) fs)"
    by (simp add: getitem_mask_def listings_frame_def mask_rows)
  moreover from False have "keeps p = (\<lambda>f. listing_cell (fst p) f = snd p)"
    by (simp add: keeps_def fun_eq_iff)
  ultimately show ?thesis
    using False assms by (simp add: filter_by_def getitem_listings and_then_def)
qed

lemma apply_filters_listings:
  "fst ` set ps \<subseteq> {''Location'', ''Food_Type'', ''Meal_Type''} \<Longrightarrow>
   apply_filters ps (listings_frame fs) =
     Inr (listings_frame (filter (\<lambda>f. \<forall>p \<in> set ps. keeps p f) fs))"
proof (induction ps arbitrary: fs)
  case Nil
  then show ?case by simp
next
  case (Cons p ps)
  obtain name sel where p: "p = (name, sel)" by (cases p)
  from Cons.prems p have name: "fst p \<in> {''Location'', ''Food_Type'', ''Meal_Type''}"
    and rest: "fst ` set ps \<subseteq> {''Location'', ''Food_Type'', ''Meal_Type''}"
    by auto
  have "apply_filters (p # ps) (listings_frame fs) =
        apply_filters ps (listings_frame (filter (keeps p) fs))"
    using filter_by_listings [OF name, of fs] by (simp add: p and_then_def)
  also have "\<dots> = Inr (listings_frame (filter (\<lambda>f. \<forall>q \<in> set ps. keeps q f) (filter (keeps p) fs)))"
    by (rule Cons.IH [OF rest])
  also have "filter (\<lambda>f. \<forall>q \<in> set ps. keeps q f) (filter (keeps p) fs) =
             filter (\<lambda>f. \<forall>q \<in> set (p # ps). keeps q f) fs"
    by (simp add: conj_commute)
  finally show ?case .
qed

lemma inj_listing_row: "inj listing_row"
  by (rule injI) (simp add: listing_row_def food_listing.equality)

lemma set_listings_frame:
  "set (data (listings_frame (filter P fs))) = listing_row ` {f \<in> set fs. P f}"
  by (auto simp: listings_frame_def)

lemma remdups_map_inj: "inj f \<Longrightarrow> remdups (map f xs) = map f (remdups xs)"
  by (induction xs) (auto simp: inj_def)

lemma unique_map_inj: "inj f \<Longrightarrow> unique (map f xs) = map f (unique xs)"
  by (simp add: unique_def rev_map remdups_map_inj)

lemma texts_of_map: "texts_of (map TextV xs) = Some xs"
  by (induction xs) simp_all

lemma py_sorted_texts: "py_sorted (map TextV xs) = Inr (map TextV (sort xs))"
  by (simp add: py_sorted_def texts_of_map)

lemma unique_text_column:
  "unique (map (\<lambda>f. TextV (g f)) fs) = map TextV (unique (map g fs))"
proof -
  have "inj TextV" by (simp add: inj_def)
  moreover have "map (\<lambda>f. TextV (g f)) fs = map TextV (map g fs)" by simp
  ultimately show ?thesis by (simp only: unique_map_inj)
qed

lemma selectbox_options_listings:
  "selectbox_options (listings_frame fs) ''Location'' =
     Inr (TextV ''All'' # map TextV (sort (unique (map Location fs))))"
  "selectbox_options (listings_frame fs) ''Food_Type'' =
     Inr (TextV ''All'' # map TextV (sort (unique (map Food_Type fs))))"
  "selectbox_options (listings_frame fs) ''Meal_Type'' =
     Inr (TextV ''All'' # map TextV (sort (unique (map Meal_Type fs))))"
  by (simp_all add: selectbox_options_def getitem_listings listing_cell_eqs and_then_def
      unique_text_column py_sorted_texts)

lemma set_unique: "set (unique xs) = set xs"
  by (simp add: unique_def)

lemma distinct_unique: "distinct (unique xs)"
  by (simp add: unique_def)

lemma strict_sorted_sort_unique: "sorted_wrt (<) (sort (unique (xs::string list)))"
  by (simp add: strict_sorted_iff distinct_unique)

lemma keeps_unfold:
  "keeps (''Location'', city) f \<longleftrightarrow> city = TextV ''All'' \<or> TextV (Location f) = city"
  "keeps (''Food_Type'', ftype) f \<longleftrightarrow> ftype = TextV ''All'' \<or> TextV (Food_Type f) = ftype"
  "keeps (''Meal_Type'', mtype) f \<longleftrightarrow> mtype = TextV ''All'' \<or> TextV (Meal_Type f) = mtype"
  by (simp_all add: keeps_def listing_cell_def)

lemma three_filters:
  "and_then (filter_by ''Location'' city (listings_frame fs)) (\<lambda>df1.
   and_then (filter_by ''Food_Type'' ftype df1) (\<lambda>df2.
   and_then (filter_by ''Meal_Type'' mtype df2) k)) =
   k (listings_frame (filter
        (\<lambda>f. (city = TextV ''All'' \<or> TextV (Location f) = city) \<and>
             (ftype = TextV ''All'' \<or> TextV (Food_Type f) = ftype) \<and>
             (mtype = TextV ''All'' \<or> TextV (Meal_Type f) = mtype)) fs))"
proof -
  have a: "filter_by ''Location'' city (listings_frame fs) =
           Inr (listings_frame (filter (keeps (''Location'', city)) fs))" for fs
    using filter_by_listings [of "(''Location'', city)" fs] by simp
  have b: "filter_by ''Food_Type'' ftype (listings_frame fs) =
           Inr (listings_frame (filter (keeps (''Food_Type'', ftype)) fs))" for fs
    using filter_by_listings [of "(''Food_Type'', ftype)" fs] by simp
  have c: "filter_by ''Meal_Type'' mtype (listings_frame fs) =
           Inr (listings_frame (filter (keeps (''Meal_Type'', mtype)) fs))" for fs
    using filter_by_listings [of "(''Meal_Type'', mtype)" fs] by simp
  have "filter (keeps (''Meal_Type'', mtype)) (filter (keeps (''Food_Type'', ftype))
          (filter (keeps (''Location'', city)) fs)) =
        filter (\<lambda>f. (city = TextV ''All'' \<or> TextV (Location f) = city) \<and>
             (ftype = TextV ''All'' \<or> TextV (Food_Type f) = ftype) \<and>
             (mtype = TextV ''All'' \<or> TextV (Meal_Type f) = mtype)) fs"
    by (simp add: keeps_unfold conj_ac cong: conj_cong)
  then show ?thesis by (simp add: a b c and_then_def)
qed

lemma view_food_listings_ok:
  assumes "ConnectFails \<notin> faults w" "StatementFails \<notin> faults w"
  shows "snd (view_food_listings city ftype mtype w) =
     Inr [Selectbox ''City''
            (TextV ''All'' # map TextV (sort (unique (map Location (food_listings (db w)))))),
          Selectbox ''Food Type''
            (TextV ''All'' # map TextV (sort (unique (map Food_Type (food_listings (db w)))))),
          Selectbox ''Meal Type''
            (TextV ''All'' # map TextV (sort (unique (map Meal_Type (food_listings (db w)))))),
          Dataframe (listings_frame (filter
            (\<lambda>f. (city = TextV ''All'' \<or> TextV (Location f) = city) \<and>
                 (ftype = TextV ''All'' \<or> TextV (Food_Type f) = ftype) \<and>
                 (mtype = TextV ''All'' \<or> TextV (Meal_Type f) = mtype))
            (food_listings (db w))))]"
  using assms
  by (simp add: view_food_listings_def step_then_def pure_def fetch_data_ok
      select_food_listings_frame selectbox_options_listings three_filters
      and_then_def [of "Inr _"])


lemma keeps_all_three:
  assumes "set ps = {(''Location'', city), (''Food_Type'', ftype), (''Meal_Type'', mtype)}"
  shows "(\<forall>p \<in> set ps. keeps p f) \<longleftrightarrow>
         (city = TextV ''All'' \<or> TextV (Location f) = city) \<and>
         (ftype = TextV ''All'' \<or> TextV (Food_Type f) = ftype) \<and>
         (mtype = TextV ''All'' \<or> TextV (Meal_Type f) = mtype)"
  by (simp add: assms keeps_unfold)

lemma apply_filters_any_order:
  assumes "mset ps = mset [(''Location'', city), (''Food_Type'', ftype), (''Meal_Type'', mtype)]"
  shows "apply_filters ps (listings_frame fs) =
     Inr (listings_frame (filter
        (\<lambda>f. (city = TextV ''All'' \<or> TextV (Location f) = city) \<and>
             (ftype = TextV ''All'' \<or> TextV (Food_Type f) = ftype) \<and>
             (mtype = TextV ''All'' \<or> TextV (Meal_Type f) = mtype)) fs))"
proof -
  from assms have "set ps = set [(''Location'', city), (''Food_Type'', ftype), (''Meal_Type'', mtype)]"
    by (rule mset_eq_setD)
  then have ps: "set ps = {(''Location'', city), (''Food_Type'', ftype), (''Meal_Type'', mtype)}"
    by simp
  then have "fst ` set ps \<subseteq> {''Location'', ''Food_Type'', ''Meal_Type''}" by auto
  then have "apply_filters ps (listings_frame fs) =
     Inr (listings_frame (filter (\<lambda>f. \<forall>p \<in> set ps. keeps p f) fs))"
    by (rule apply_filters_listings)
  then show ?thesis by (simp only: keeps_all_three [OF ps])
qed

lemma single_filters:
  "filter_by ''Location'' city (listings_frame fs) =
     Inr (listings_frame (filter (\<lambda>f. city = TextV ''All'' \<or> TextV (Location f) = city) fs))"
  "filter_by ''Food_Type'' ftype (listings_frame fs) =
     Inr (listings_frame (filter (\<lambda>f. ftype = TextV ''All'' \<or> TextV (Food_Type f) = ftype) fs))"
  "filter_by ''Meal_Type'' mtype (listings_frame fs) =
     Inr (listings_frame (filter (\<lambda>f. mtype = TextV ''All'' \<or> TextV (Meal_Type f) = mtype) fs))"
  using filter_by_listings [of "(''Location'', city)" fs]
    filter_by_listings [of "(''Food_Type'', ftype)" fs]
    filter_by_listings [of "(''Meal_Type'', mtype)" fs]
  by (simp_all add: keeps_unfold [abs_def])

lemma rows_intersection:
  "set (data (listings_frame (filter (\<lambda>f. P f \<and> Q f \<and> R f) fs))) =
   set (data (listings_frame (filter P fs))) \<inter> set (data (listings_frame (filter Q fs))) \<inter>
   set (data (listings_frame (filter R fs)))"
proof -
  have "listing_row ` {f \<in> set fs. P f \<and> Q f \<and> R f} =
        listing_row ` ({f \<in> set fs. P f} \<inter> {f \<in> set fs. Q f} \<inter> {f \<in> set fs. R f})"
    by (rule arg_cong [where f = "(`) listing_row"]) blast
  also have "\<dots> = listing_row ` {f \<in> set fs. P f} \<inter> listing_row ` {f \<in> set fs. Q f} \<inter>
                  listing_row ` {f \<in> set fs. R f}"
    by (simp add: image_Int [OF inj_listing_row])
  finally show ?thesis by (simp only: set_listings_frame)
qed

lemma example_listings_nth:
  "example_listings ! 0 =
     \<lparr>food_listing.Food_ID = 1, Food_Name = ''Bread Loaves'', Quantity = 10,
       Expiry_Date = (2026, 11, 3), food_listing.Provider_ID = 1, Provider_Type = ''Bakery'',
       Location = ''Springfield'', Food_Type = ''Vegetarian'', Meal_Type = ''Breakfast''\<rparr>"
  "example_listings ! 2 =
     \<lparr>food_listing.Food_ID = 3, Food_Name = ''Fruit Salad'', Quantity = 8,
       Expiry_Date = (2026, 11, 10), food_listing.Provider_ID = 1, Provider_Type = ''Bakery'',
       Location = ''Springfield'', Food_Type = ''Vegan'', Meal_Type = ''Breakfast''\<rparr>"
  by (simp_all add: example_listings_def)

lemma food_listings_example_store: "food_listings example_store = example_listings"
  by (simp add: example_store_def)

lemma example_option_lists:
  "sort (unique (map Location example_listings)) = [''Shelbyville'', ''Springfield'']"
  "sort (unique (map Food_Type example_listings)) = [''Non-Vegetarian'', ''Vegan'', ''Vegetarian'']"
  "sort (unique (map Meal_Type example_listings)) = [''Breakfast'', ''Dinner'']"
  by (simp_all add: example_listings_def unique_def)

lemma example_filtered:
  "filter (\<lambda>f. (TextV ''Springfield'' = TextV ''All'' \<or>
                  TextV (Location f) = TextV ''Springfield'') \<and>
               (TextV ''All'' = TextV ''All'' \<or> TextV (Food_Type f) = TextV ''All'') \<and>
               (TextV ''Breakfast'' = TextV ''All'' \<or>
                  TextV (Meal_Type f) = TextV ''Breakfast''))
          example_listings = [example_listings ! 0, example_listings ! 2]"
  by (simp add: example_listings_nth) (simp add: example_listings_def)

text \<open>
  C4. For every store and every choice of the three select boxes (\<open>All\<close> meaning no
  filter on that column): applying the three equality filters in any order gives the
  same frame, the one the screen shows; its rows are the listings that pass all three
  filters, and its set of rows is the intersection of the sets of rows that each filter
  gives alone.
\<close>

theorem listing_filters_conjunctive_commutative:
  assumes "mset ps = mset [(''Location'', city), (''Food_Type'', ftype), (''Meal_Type'', mtype)]"
  shows "\<exists>shown by_city by_food_type by_meal_type.
     shown = \<lparr>columns = food_listings_columns,
              data = map listing_row (filter
                (\<lambda>f. (city = TextV ''All'' \<or> TextV (Location f) = city) \<and>
                     (ftype = TextV ''All'' \<or> TextV (Food_Type f) = ftype) \<and>
                     (mtype = TextV ''All'' \<or> TextV (Meal_Type f) = mtype))
                (food_listings (db w)))\<rparr> \<and>
     apply_filters ps (select_food_listings (db w)) = Inr shown \<and>
     apply_filters [(''Location'', city), (''Food_Type'', ftype), (''Meal_Type'', mtype)]
       (select_food_listings (db w)) = Inr shown \<and>
     (ConnectFails \<notin> faults w \<and> StatementFails \<notin> faults w \<longrightarrow>
        (\<exists>city_options food_type_options meal_type_options.
           snd (view_food_listings city ftype mtype w) =
             Inr [Selectbox ''City'' city_options, Selectbox ''Food Type'' food_type_options,
                  Selectbox ''Meal Type'' meal_type_options, Dataframe shown])) \<and>
     filter_by ''Location'' city (select_food_listings (db w)) = Inr by_city \<and>
     filter_by ''Food_Type'' ftype (select_food_listings (db w)) = Inr by_food_type \<and>
     filter_by ''Meal_Type'' mtype (select_food_listings (db w)) = Inr by_meal_type \<and>
     set (data shown) = set (data by_city) \<inter> set (data by_food_type) \<inter> set (data by_meal_type)"
proof -
  let ?fs = "food_listings (db w)"
  let ?P = "\<lambda>f. city = TextV ''All'' \<or> TextV (Location f) = city"
  let ?Q = "\<lambda>f. ftype = TextV ''All'' \<or> TextV (Food_Type f) = ftype"
  let ?R = "\<lambda>f. mtype = TextV ''All'' \<or> TextV (Meal_Type f) = mtype"
  let ?shown = "listings_frame (filter (\<lambda>f. ?P f \<and> ?Q f \<and> ?R f) ?fs)"
  have 1: "?shown = \<lparr>columns = food_listings_columns,
              data = map listing_row (filter (\<lambda>f. ?P f \<and> ?Q f \<and> ?R f) ?fs)\<rparr>"
    by (simp add: listings_frame_def)
  have 2: "apply_filters ps (select_food_listings (db w)) = Inr ?shown"
    using assms by (simp only: select_food_listings_frame apply_filters_any_order)
  have 3: "apply_filters [(''Location'', city), (''Food_Type'', ftype), (''Meal_Type'', mtype)]
       (select_food_listings (db w)) = Inr ?shown"
    by (simp only: select_food_listings_frame apply_filters_any_order [OF refl])
  have 4: "ConnectFails \<notin> faults w \<and> StatementFails \<notin> faults w \<longrightarrow>
        (\<exists>city_options food_type_options meal_type_options.
           snd (view_food_listings city ftype mtype w) =
             Inr [Selectbox ''City'' city_options, Selectbox ''Food Type'' food_type_options,
                  Selectbox ''Meal Type'' meal_type_options, Dataframe ?shown])"
    by (simp add: view_food_listings_ok)
  have 5: "filter_by ''Location'' city (select_food_listings (db w)) =
             Inr (listings_frame (filter ?P ?fs))"
    "filter_by ''Food_Type'' ftype (select_food_listings (db w)) =
             Inr (listings_frame (filter ?Q ?fs))"
    "filter_by ''Meal_Type'' mtype (select_food_listings (db w)) =
             Inr (listings_frame (filter ?R ?fs))"
    by (simp_all only: select_food_listings_frame single_filters)
  have 6: "set (data ?shown) = set (data (listings_frame (filter ?P ?fs))) \<inter>
       set (data (listings_frame (filter ?Q ?fs))) \<inter> set (data (listings_frame (filter ?R ?fs)))"
    by (rule rows_intersection)
  from 1 2 3 4 5 6 show ?thesis by blast
qed


theorem listing_filters_conjunctive_commutative_witness:
  "mset [(''Meal_Type'', TextV ''Breakfast''), (''Location'', TextV ''Springfield''),
         (''Food_Type'', TextV ''All'')] =
   mset [(''Location'', TextV ''Springfield''), (''Food_Type'', TextV ''All''),
         (''Meal_Type'', TextV ''Breakfast'')] \<and>
   ConnectFails \<notin> faults (example_world example_store {}) \<and>
   StatementFails \<notin> faults (example_world example_store {}) \<and>
   apply_filters [(''Meal_Type'', TextV ''Breakfast''), (''Location'', TextV ''Springfield''),
                  (''Food_Type'', TextV ''All'')]
     (select_food_listings (db (example_world example_store {}))) =
     Inr \<lparr>columns = food_listings_columns,
          data = map listing_row [example_listings ! 0, example_listings ! 2]\<rparr> \<and>
   apply_filters [(''Location'', TextV ''Springfield''), (''Food_Type'', TextV ''All''),
                  (''Meal_Type'', TextV ''Breakfast'')]
     (select_food_listings (db (example_world example_store {}))) =
     Inr \<lparr>columns = food_listings_columns,
          data = map listing_row [example_listings ! 0, example_listings ! 2]\<rparr> \<and>
   (\<exists>city_options food_type_options meal_type_options.
      snd (view_food_listings (TextV ''Springfield'') (TextV ''All'') (TextV ''Breakfast'')
             (example_world example_store {})) =
        Inr [Selectbox ''City'' city_options, Selectbox ''Food Type'' food_type_options,
             Selectbox ''Meal Type'' meal_type_options,
             Dataframe \<lparr>columns = food_listings_columns,
                        data = map listing_row [example_listings ! 0, example_listings ! 2]\<rparr>])"
proof -
  let ?w = "example_world example_store {}"
  have h: "mset [(''Meal_Type'', TextV ''Breakfast''), (''Location'', TextV ''Springfield''),
         (''Food_Type'', TextV ''All'')] =
   mset [(''Location'', TextV ''Springfield''), (''Food_Type'', TextV ''All''),
         (''Meal_Type'', TextV ''Breakfast'')]"
    by simp
  have a: "ConnectFails \<notin> faults ?w \<and> StatementFails \<notin> faults ?w"
    by (simp add: example_world_fields)
  from listing_filters_conjunctive_commutative [OF h, of ?w]
  obtain shown where
    1: "shown = \<lparr>columns = food_listings_columns,
              data = map listing_row (filter
                (\<lambda>f. (TextV ''Springfield'' = TextV ''All'' \<or>
                        TextV (Location f) = TextV ''Springfield'') \<and>
                     (TextV ''All'' = TextV ''All'' \<or> TextV (Food_Type f) = TextV ''All'') \<and>
                     (TextV ''Breakfast'' = TextV ''All'' \<or>
                        TextV (Meal_Type f) = TextV ''Breakfast''))
                (food_listings (db ?w)))\<rparr>"
    and 2: "apply_filters [(''Meal_Type'', TextV ''Breakfast''), (''Location'', TextV ''Springfield''),
                  (''Food_Type'', TextV ''All'')] (select_food_listings (db ?w)) = Inr shown"
    and 3: "apply_filters [(''Location'', TextV ''Springfield''), (''Food_Type'', TextV ''All''),
                  (''Meal_Type'', TextV ''Breakfast'')] (select_food_listings (db ?w)) = Inr shown"
    and 4: "ConnectFails \<notin> faults ?w \<and> StatementFails \<notin> faults ?w \<longrightarrow>
        (\<exists>city_options food_type_options meal_type_options.
           snd (view_food_listings (TextV ''Springfield'') (TextV ''All'') (TextV ''Breakfast'') ?w) =
             Inr [Selectbox ''City'' city_options, Selectbox ''Food Type'' food_type_options,
                  Selectbox ''Meal Type'' meal_type_options, Dataframe shown])"
    by (elim exE conjE)
  from 1 have s: "shown = \<lparr>columns = food_listings_columns,
          data = map listing_row [example_listings ! 0, example_listings ! 2]\<rparr>"
    by (simp only: example_world_fields food_listings_example_store example_filtered)
  from 4 a have 5: "\<exists>city_options food_type_options meal_type_options.
           snd (view_food_listings (TextV ''Springfield'') (TextV ''All'') (TextV ''Breakfast'') ?w) =
             Inr [Selectbox ''City'' city_options, Selectbox ''Food Type'' food_type_options,
                  Selectbox ''Meal Type'' meal_type_options, Dataframe shown]"
    by (rule mp)
  from h a 2 3 5 show ?thesis
    unfolding s by (intro conjI) (simp_all only: simp_thms)
qed

text \<open>
  C8. In every world where connecting and reading succeed, each of the three select
  boxes of the screen is populated, from the unfiltered frame, with \<open>All\<close> and the
  values of its column (Location, Food_Type, Meal_Type), as a set; the three option
  lists are the same whatever the three boxes are set to.
\<close>

theorem selectbox_options_from_unfiltered:
  assumes "ConnectFails \<notin> faults w" and "StatementFails \<notin> faults w"
  shows "\<exists>city_options food_type_options meal_type_options.
     selectbox_options (select_food_listings (db w)) ''Location'' = Inr city_options \<and>
     selectbox_options (select_food_listings (db w)) ''Food_Type'' = Inr food_type_options \<and>
     selectbox_options (select_food_listings (db w)) ''Meal_Type'' = Inr meal_type_options \<and>
     set city_options =
       {TextV ''All''} \<union> (\<lambda>f. TextV (Location f)) ` set (food_listings (db w)) \<and>
     set food_type_options =
       {TextV ''All''} \<union> (\<lambda>f. TextV (Food_Type f)) ` set (food_listings (db w)) \<and>
     set meal_type_options =
       {TextV ''All''} \<union> (\<lambda>f. TextV (Meal_Type f)) ` set (food_listings (db w)) \<and>
     (\<forall>city ftype mtype. \<exists>shown.
        snd (view_food_listings city ftype mtype w) =
          Inr [Selectbox ''City'' city_options, Selectbox ''Food Type'' food_type_options,
               Selectbox ''Meal Type'' meal_type_options, Dataframe shown])"
proof -
  let ?fs = "food_listings (db w)"
  let ?c = "TextV ''All'' # map TextV (sort (unique (map Location ?fs)))"
  let ?f = "TextV ''All'' # map TextV (sort (unique (map Food_Type ?fs)))"
  let ?m = "TextV ''All'' # map TextV (sort (unique (map Meal_Type ?fs)))"
  have o: "selectbox_options (select_food_listings (db w)) ''Location'' = Inr ?c"
    "selectbox_options (select_food_listings (db w)) ''Food_Type'' = Inr ?f"
    "selectbox_options (select_food_listings (db w)) ''Meal_Type'' = Inr ?m"
    by (simp_all only: select_food_listings_frame selectbox_options_listings)
  have s: "set ?c = {TextV ''All''} \<union> (\<lambda>f. TextV (Location f)) ` set ?fs"
    "set ?f = {TextV ''All''} \<union> (\<lambda>f. TextV (Food_Type f)) ` set ?fs"
    "set ?m = {TextV ''All''} \<union> (\<lambda>f. TextV (Meal_Type f)) ` set ?fs"
    by (auto simp: set_unique)
  have v: "\<forall>city ftype mtype. \<exists>shown.
        snd (view_food_listings city ftype mtype w) =
          Inr [Selectbox ''City'' ?c, Selectbox ''Food Type'' ?f,
               Selectbox ''Meal Type'' ?m, Dataframe shown]"
    by (intro allI exI) (rule view_food_listings_ok [OF assms])
  from o s v show ?thesis
    by (intro exI conjI) assumption+
qed

theorem selectbox_options_from_unfiltered_witness:
  "ConnectFails \<notin> faults (example_world example_store {}) \<and>
   StatementFails \<notin> faults (example_world example_store {}) \<and>
   snd (view_food_listings (TextV ''Springfield'') (TextV ''All'') (TextV ''Breakfast'')
          (example_world example_store {})) =
     Inr [Selectbox ''City'' [TextV ''All'', TextV ''Shelbyville'', TextV ''Springfield''],
          Selectbox ''Food Type''
            [TextV ''All'', TextV ''Non-Vegetarian'', TextV ''Vegan'', TextV ''Vegetarian''],
          Selectbox ''Meal Type'' [TextV ''All'', TextV ''Breakfast'', TextV ''Dinner''],
          Dataframe \<lparr>columns = food_listings_columns,
                     data = map listing_row [example_listings ! 0, example_listings ! 2]\<rparr>] \<and>
   set [TextV ''All'', TextV ''Shelbyville'', TextV ''Springfield''] =
     {TextV ''All''} \<union> (\<lambda>f. TextV (Location f)) ` set (food_listings example_store)"
proof -
  let ?w = "example_world example_store {}"
  have a: "ConnectFails \<notin> faults ?w" and b: "StatementFails \<notin> faults ?w"
    by (simp_all add: example_world_fields)
  have v: "snd (view_food_listings (TextV ''Springfield'') (TextV ''All'') (TextV ''Breakfast'') ?w) =
     Inr [Selectbox ''City'' [TextV ''All'', TextV ''Shelbyville'', TextV ''Springfield''],
          Selectbox ''Food Type''
            [TextV ''All'', TextV ''Non-Vegetarian'', TextV ''Vegan'', TextV ''Vegetarian''],
          Selectbox ''Meal Type'' [TextV ''All'', TextV ''Breakfast'', TextV ''Dinner''],
          Dataframe \<lparr>columns = food_listings_columns,
                     data = map listing_row [example_listings ! 0, example_listings ! 2]\<rparr>]"
    unfolding view_food_listings_ok [OF a b] example_world_fields food_listings_example_store
      example_option_lists example_filtered listings_frame_def
    by simp
  from selectbox_options_from_unfiltered [OF a b]
  obtain city_options food_type_options meal_type_options where
    c: "set city_options =
          {TextV ''All''} \<union> (\<lambda>f. TextV (Location f)) ` set (food_listings (db ?w))"
    and s: "\<forall>city ftype mtype. \<exists>shown.
        snd (view_food_listings city ftype mtype ?w) =
          Inr [Selectbox ''City'' city_options, Selectbox ''Food Type'' food_type_options,
               Selectbox ''Meal Type'' meal_type_options, Dataframe shown]"
    by (elim exE conjE)
  from s obtain shown where
    "snd (view_food_listings (TextV ''Springfield'') (TextV ''All'') (TextV ''Breakfast'') ?w) =
          Inr [Selectbox ''City'' city_options, Selectbox ''Food Type'' food_type_options,
               Selectbox ''Meal Type'' meal_type_options, Dataframe shown]"
    by (elim allE exE)
  with v have "city_options = [TextV ''All'', TextV ''Shelbyville'', TextV ''Springfield'']"
    by (simp only: sum.inject list.inject widget.inject)
  with c have "set [TextV ''All'', TextV ''Shelbyville'', TextV ''Springfield''] =
     {TextV ''All''} \<union> (\<lambda>f. TextV (Location f)) ` set (food_listings example_store)"
    by (simp only: example_world_fields)
  with a b v show ?thesis by (intro conjI)
qed

text \<open>
  C10. For every listing set, empty or not, the option list of each select box is
  \<open>All\<close> followed by the values of its column in strictly ascending order, hence
  without duplicates; a store with the same listings gives the same three lists; and in
  every world that holds these listings and where connecting and reading succeed, the
  View Food Listings screen renders its three select boxes with exactly these lists,
  whatever the boxes are set to.
\<close>

theorem selectbox_options_sorted:
  "\<exists>cities food_types meal_types.
     selectbox_options (select_food_listings s) ''Location'' =
       Inr (TextV ''All'' # map TextV cities) \<and>
     sorted_wrt (<) cities \<and> distinct cities \<and>
     set cities = Location ` set (food_listings s) \<and>
     selectbox_options (select_food_listings s) ''Food_Type'' =
       Inr (TextV ''All'' # map TextV food_types) \<and>
     sorted_wrt (<) food_types \<and> distinct food_types \<and>
     set food_types = Food_Type ` set (food_listings s) \<and>
     selectbox_options (select_food_listings s) ''Meal_Type'' =
       Inr (TextV ''All'' # map TextV meal_types) \<and>
     sorted_wrt (<) meal_types \<and> distinct meal_types \<and>
     set meal_types = Meal_Type ` set (food_listings s) \<and>
     (food_listings s' = food_listings s \<longrightarrow>
        selectbox_options (select_food_listings s') ''Location'' =
          Inr (TextV ''All'' # map TextV cities) \<and>
        selectbox_options (select_food_listings s') ''Food_Type'' =
          Inr (TextV ''All'' # map TextV food_types) \<and>
        selectbox_options (select_food_listings s') ''Meal_Type'' =
          Inr (TextV ''All'' # map TextV meal_types)) \<and>
     (food_listings (db w) = food_listings s \<and>
      ConnectFails \<notin> faults w \<and> StatementFails \<notin> faults w \<longrightarrow>
        (\<forall>city ftype mtype. \<exists>shown.
           snd (view_food_listings city ftype mtype w) =
             Inr [Selectbox ''City'' (TextV ''All'' # map TextV cities),
                  Selectbox ''Food Type'' (TextV ''All'' # map TextV food_types),
                  Selectbox ''Meal Type'' (TextV ''All'' # map TextV meal_types),
                  Dataframe shown]))"
proof -
  let ?c = "sort (unique (map Location (food_listings s)))"
  let ?f = "sort (unique (map Food_Type (food_listings s)))"
  let ?m = "sort (unique (map Meal_Type (food_listings s)))"
  have "sorted_wrt (<) ?c" "sorted_wrt (<) ?f" "sorted_wrt (<) ?m"
    by (rule strict_sorted_sort_unique)+
  moreover have "distinct ?c" "distinct ?f" "distinct ?m"
    by (simp_all add: distinct_unique)
  moreover have "set ?c = Location ` set (food_listings s)"
    "set ?f = Food_Type ` set (food_listings s)" "set ?m = Meal_Type ` set (food_listings s)"
    by (simp_all add: set_unique)
  moreover have "selectbox_options (select_food_listings s) ''Location'' =
       Inr (TextV ''All'' # map TextV ?c)"
    "selectbox_options (select_food_listings s) ''Food_Type'' =
       Inr (TextV ''All'' # map TextV ?f)"
    "selectbox_options (select_food_listings s) ''Meal_Type'' =
       Inr (TextV ''All'' # map TextV ?m)"
    by (simp_all only: select_food_listings_frame selectbox_options_listings)
  moreover have "food_listings s' = food_listings s \<longrightarrow>
        selectbox_options (select_food_listings s') ''Location'' =
          Inr (TextV ''All'' # map TextV ?c) \<and>
        selectbox_options (select_food_listings s') ''Food_Type'' =
          Inr (TextV ''All'' # map TextV ?f) \<and>
        selectbox_options (select_food_listings s') ''Meal_Type'' =
          Inr (TextV ''All'' # map TextV ?m)"
    by (simp add: select_food_listings_frame selectbox_options_listings)
  moreover have "food_listings (db w) = food_listings s \<and>
      ConnectFails \<notin> faults w \<and> StatementFails \<notin> faults w \<longrightarrow>
        (\<forall>city ftype mtype. \<exists>shown.
           snd (view_food_listings city ftype mtype w) =
             Inr [Selectbox ''City'' (TextV ''All'' # map TextV ?c),
                  Selectbox ''Food Type'' (TextV ''All'' # map TextV ?f),
                  Selectbox ''Meal Type'' (TextV ''All'' # map TextV ?m),
                  Dataframe shown])"
  proof (intro impI allI, elim conjE)
    fix city ftype mtype
    assume e: "food_listings (db w) = food_listings s"
      and a: "ConnectFails \<notin> faults w" and b: "StatementFails \<notin> faults w"
    show "\<exists>shown. snd (view_food_listings city ftype mtype w) =
             Inr [Selectbox ''City'' (TextV ''All'' # map TextV ?c),
                  Selectbox ''Food Type'' (TextV ''All'' # map TextV ?f),
                  Selectbox ''Meal Type'' (TextV ''All'' # map TextV ?m),
                  Dataframe shown]"
      unfolding e [symmetric] by (rule exI) (rule view_food_listings_ok [OF a b])
  qed
  ultimately show ?thesis
    by (intro exI conjI) assumption+
qed

theorem selectbox_options_sorted_witness:
  "food_listings (example_store\<lparr>claims := []\<rparr>) = food_listings example_store \<and>
   food_listings (db (example_world example_store {})) = food_listings example_store \<and>
   ConnectFails \<notin> faults (example_world example_store {}) \<and>
   StatementFails \<notin> faults (example_world example_store {}) \<and>
   selectbox_options (select_food_listings example_store) ''Location'' =
     Inr [TextV ''All'', TextV ''Shelbyville'', TextV ''Springfield''] \<and>
   selectbox_options (select_food_listings (example_store\<lparr>claims := []\<rparr>)) ''Location'' =
     Inr [TextV ''All'', TextV ''Shelbyville'', TextV ''Springfield''] \<and>
   selectbox_options (select_food_listings example_store) ''Food_Type'' =
     Inr [TextV ''All'', TextV ''Non-Vegetarian'', TextV ''Vegan'', TextV ''Vegetarian''] \<and>
   selectbox_options (select_food_listings example_store) ''Meal_Type'' =
     Inr [TextV ''All'', TextV ''Breakfast'', TextV ''Dinner''] \<and>
   sorted_wrt (<) [''Shelbyville'', ''Springfield''] \<and>
   sorted_wrt (<) [''Non-Vegetarian'', ''Vegan'', ''Vegetarian''] \<and>
   sorted_wrt (<) [''Breakfast'', ''Dinner''] \<and>
   (\<exists>shown.
      snd (view_food_listings (TextV ''Springfield'') (TextV ''All'') (TextV ''Breakfast'')
             (example_world example_store {})) =
        Inr [Selectbox ''City'' [TextV ''All'', TextV ''Shelbyville'', TextV ''Springfield''],
             Selectbox ''Food Type''
               [TextV ''All'', TextV ''Non-Vegetarian'', TextV ''Vegan'', TextV ''Vegetarian''],
             Selectbox ''Meal Type'' [TextV ''All'', TextV ''Breakfast'', TextV ''Dinner''],
             Dataframe shown])"
proof -
  let ?w = "example_world example_store {}"
  have h: "food_listings (example_store\<lparr>claims := []\<rparr>) = food_listings example_store"
    by simp
  have g: "food_listings (db ?w) = food_listings example_store \<and>
           ConnectFails \<notin> faults ?w \<and> StatementFails \<notin> faults ?w"
    by (simp add: example_world_fields)
  have c: "selectbox_options (select_food_listings example_store) ''Location'' =
     Inr (TextV ''All'' # map TextV [''Shelbyville'', ''Springfield''])"
    and f: "selectbox_options (select_food_listings example_store) ''Food_Type'' =
     Inr (TextV ''All'' # map TextV [''Non-Vegetarian'', ''Vegan'', ''Vegetarian''])"
    and m: "selectbox_options (select_food_listings example_store) ''Meal_Type'' =
     Inr (TextV ''All'' # map TextV [''Breakfast'', ''Dinner''])"
    by (simp_all only: select_food_listings_frame selectbox_options_listings
        food_listings_example_store example_option_lists)
  from selectbox_options_sorted [of example_store "example_store\<lparr>claims := []\<rparr>" ?w]
  obtain cities food_types meal_types where
    1: "selectbox_options (select_food_listings example_store) ''Location'' =
          Inr (TextV ''All'' # map TextV cities)"
    and 2: "sorted_wrt (<) cities"
    and 3: "selectbox_options (select_food_listings example_store) ''Food_Type'' =
          Inr (TextV ''All'' # map TextV food_types)"
    and 4: "sorted_wrt (<) food_types"
    and 5: "selectbox_options (select_food_listings example_store) ''Meal_Type'' =
          Inr (TextV ''All'' # map TextV meal_types)"
    and 6: "sorted_wrt (<) meal_types"
    and 7: "food_listings (example_store\<lparr>claims := []\<rparr>) = food_listings example_store \<longrightarrow>
        selectbox_options (select_food_listings (example_store\<lparr>claims := []\<rparr>)) ''Location'' =
          Inr (TextV ''All'' # map TextV cities) \<and>
        selectbox_options (select_food_listings (example_store\<lparr>claims := []\<rparr>)) ''Food_Type'' =
          Inr (TextV ''All'' # map TextV food_types) \<and>
        selectbox_options (select_food_listings (example_store\<lparr>claims := []\<rparr>)) ''Meal_Type'' =
          Inr (TextV ''All'' # map TextV meal_types)"
    and 8: "food_listings (db ?w) = food_listings example_store \<and>
      ConnectFails \<notin> faults ?w \<and> StatementFails \<notin> faults ?w \<longrightarrow>
        (\<forall>city ftype mtype. \<exists>shown.
           snd (view_food_listings city ftype mtype ?w) =
             Inr [Selectbox ''City'' (TextV ''All'' # map TextV cities),
                  Selectbox ''Food Type'' (TextV ''All'' # map TextV food_types),
                  Selectbox ''Meal Type'' (TextV ''All'' # map TextV meal_types),
                  Dataframe shown])"
    by (elim exE conjE)
  have inj: "inj TextV" by (simp add: inj_def)
  from 1 c have "map TextV cities = map TextV [''Shelbyville'', ''Springfield'']"
    by (simp only: sum.inject list.inject simp_thms)
  then have ec: "cities = [''Shelbyville'', ''Springfield'']"
    by (simp only: inj_map_eq_map [OF inj])
  from 3 f have "map TextV food_types = map TextV [''Non-Vegetarian'', ''Vegan'', ''Vegetarian'']"
    by (simp only: sum.inject list.inject simp_thms)
  then have ef: "food_types = [''Non-Vegetarian'', ''Vegan'', ''Vegetarian'']"
    by (simp only: inj_map_eq_map [OF inj])
  from 5 m have "map TextV meal_types = map TextV [''Breakfast'', ''Dinner'']"
    by (simp only: sum.inject list.inject simp_thms)
  then have em: "meal_types = [''Breakfast'', ''Dinner'']"
    by (simp only: inj_map_eq_map [OF inj])
  from 7 h have 9:
    "selectbox_options (select_food_listings (example_store\<lparr>claims := []\<rparr>)) ''Location'' =
          Inr (TextV ''All'' # map TextV cities)"
    by (elim impE conjE)
  from 8 g have "\<forall>city ftype mtype. \<exists>shown.
           snd (view_food_listings city ftype mtype ?w) =
             Inr [Selectbox ''City'' (TextV ''All'' # map TextV cities),
                  Selectbox ''Food Type'' (TextV ''All'' # map TextV food_types),
                  Selectbox ''Meal Type'' (TextV ''All'' # map TextV meal_types),
                  Dataframe shown]"
    by (rule mp)
  then have 10: "\<exists>shown.
           snd (view_food_listings (TextV ''Springfield'') (TextV ''All'') (TextV ''Breakfast'') ?w) =
             Inr [Selectbox ''City'' (TextV ''All'' # map TextV cities),
                  Selectbox ''Food Type'' (TextV ''All'' # map TextV food_types),
                  Selectbox ''Meal Type'' (TextV ''All'' # map TextV meal_types),
                  Dataframe shown]"
    by (elim allE)
  from h g 1 9 3 5 2 4 6 10 show ?thesis
    unfolding ec ef em list.map by (intro conjI) (simp_all only: simp_thms)
qed

end
